theory Spec2Isabelle
  imports Main "HOL-Library.Sublist" "HOL-Library.AList"
begin

section \<open>Errors\<close>

text \<open>
  Every \<^verbatim>\<open>throw\<close> of the source is a value. \<open>Error m\<close> is a plain JavaScript
  \<^verbatim>\<open>Error\<close> with message \<open>m\<close>; \<open>NavigationCancelingError m\<close> is the error
  built by \<^verbatim>\<open>navigationCancelingError\<close> (an \<^verbatim>\<open>Error\<close> carrying the
  \<^verbatim>\<open>ngNavigationCancelingError\<close> flag); \<open>URIError\<close> is what
  \<^verbatim>\<open>decodeURIComponent\<close> and \<^verbatim>\<open>decodeURI\<close> throw on a malformed escape;
  \<open>TypeError\<close> is a property access on \<^verbatim>\<open>undefined\<close> or \<^verbatim>\<open>null\<close>;
  \<open>NoMatch\<close> is the internal signal of the redirect applier and the recognizer;
  \<open>EmptyError\<close> is what the stream operator \<^verbatim>\<open>first\<close> raises on a stream that ends
  without a value.
  \<open>OutOfFuel\<close> is not an error of the source: it is the value of a fuel-bounded model function
  whose fuel ran out, and the lemmas below show that the entry points never return it.
\<close>

datatype error =
    Error string
  | NavigationCancelingError string
  | URIError
  | TypeError
  | NoMatch
  | EmptyError
  | OutOfFuel

section \<open>The URL tree (\<^verbatim>\<open>UrlSegment\<close>, \<^verbatim>\<open>UrlSegmentGroup\<close>, \<^verbatim>\<open>UrlTree\<close>)\<close>

text \<open>
  A JavaScript object used as a dictionary is an association list in insertion order, which
  is the order \<^verbatim>\<open>for ... in\<close> and \<^verbatim>\<open>Object.keys\<close> enumerate (keys that are
  canonical array indices, which JavaScript enumerates first, and the property names inherited
  from \<^verbatim>\<open>Object.prototype\<close> are outside the model, except in
  \<^verbatim>\<open>checkOutletNameUniqueness\<close>, where they are looked up). Strings are byte strings: a
  character beyond ASCII is the bytes of its UTF-8 encoding, which is what the percent-encoding
  functions work on.
\<close>

datatype UrlSegment = UrlSegment (path: string) (parameters: "(string \<times> string) list")

datatype UrlSegmentGroup =
  UrlSegmentGroup (segments: "UrlSegment list") (children: "(string \<times> UrlSegmentGroup) list")

datatype QueryValue = QStr string | QArr "string list"

record UrlTree =
  root :: UrlSegmentGroup
  queryParams :: "(string \<times> QueryValue) list"
  fragment :: "string option"

definition PRIMARY_OUTLET :: string where
  "PRIMARY_OUTLET = ''primary''"


section \<open>Percent-encoding (\<^verbatim>\<open>encodeURIComponent\<close>, \<^verbatim>\<open>encodeURI\<close> and their inverses)\<close>

definition isAlnum :: "char \<Rightarrow> bool" where
  "isAlnum c = (let n = (of_char c :: nat) in
     (48 \<le> n \<and> n \<le> 57) \<or> (65 \<le> n \<and> n \<le> 90) \<or> (97 \<le> n \<and> n \<le> 122))"

definition uriMark :: "char \<Rightarrow> bool" where
  "uriMark c = (c \<in> set ''-_.!~*()'' \<or> c = CHR 0x27)"

definition uriReserved :: "char \<Rightarrow> bool" where
  "uriReserved c = (c \<in> set '';/?:@&=+$,'')"

definition hexDigit :: "nat \<Rightarrow> char" where
  "hexDigit n = ''0123456789ABCDEF'' ! (n mod 16)"

definition pctEncode :: "char \<Rightarrow> string" where
  "pctEncode c = [CHR ''%'', hexDigit ((of_char c :: nat) div 16), hexDigit ((of_char c :: nat) mod 16)]"

definition encodeURIComponent :: "string \<Rightarrow> string" where
  "encodeURIComponent s = concat (map (\<lambda>c. if isAlnum c \<or> uriMark c then [c] else pctEncode c) s)"

definition encodeURI :: "string \<Rightarrow> string" where
  "encodeURI s = concat (map (\<lambda>c. if isAlnum c \<or> uriMark c \<or> uriReserved c \<or> c = CHR ''#''
                                   then [c] else pctEncode c) s)"

definition unhex :: "char \<Rightarrow> nat option" where
  "unhex c = (let n = (of_char c :: nat) in
     if 48 \<le> n \<and> n \<le> 57 then Some (n - 48)
     else if 65 \<le> n \<and> n \<le> 70 then Some (n - 55)
     else if 97 \<le> n \<and> n \<le> 102 then Some (n - 87)
     else None)"

text \<open>
  Decoding runs in two passes. \<open>unescape\<close> splits the text into literal characters and
  escapes \<^verbatim>\<open>%XX\<close> (a \<^verbatim>\<open>%\<close> not followed by two hexadecimal digits is a
  \<^verbatim>\<open>URIError\<close>). \<open>decodeTokens\<close> then turns every escape below 0x80 into its character
  and requires every other escape to start a well-formed UTF-8 sequence written entirely as
  escapes, as ECMAScript's \<^verbatim>\<open>Decode\<close> does. The predicate \<open>keep\<close> selects the
  characters whose escapes are left as they are (none for \<^verbatim>\<open>decodeURIComponent\<close>, the
  reserved set and \<^verbatim>\<open>#\<close> for \<^verbatim>\<open>decodeURI\<close>).
\<close>

datatype uriToken = Lit char | Esc char char nat

fun unescape :: "string \<Rightarrow> error + uriToken list" where
  "unescape [] = Inr []"
| "unescape (c # cs) =
     (if c = CHR ''%'' then
        (case cs of
           h1 # h2 # rest \<Rightarrow>
             (case (unhex h1, unhex h2) of
                (Some a, Some b) \<Rightarrow>
                  (case unescape rest of Inl e \<Rightarrow> Inl e | Inr ts \<Rightarrow> Inr (Esc h1 h2 (16 * a + b) # ts))
              | _ \<Rightarrow> Inl URIError)
         | _ \<Rightarrow> Inl URIError)
      else (case unescape cs of Inl e \<Rightarrow> Inl e | Inr ts \<Rightarrow> Inr (Lit c # ts)))"

definition utf8Length :: "nat \<Rightarrow> nat" where
  "utf8Length b = (if 194 \<le> b \<and> b \<le> 223 then 2
                   else if 224 \<le> b \<and> b \<le> 239 then 3
                   else if 240 \<le> b \<and> b \<le> 244 then 4 else 0)"

fun escByte :: "uriToken \<Rightarrow> nat option" where
  "escByte (Lit c) = None"
| "escByte (Esc h1 h2 b) = Some b"

definition isCont :: "nat \<Rightarrow> bool" where
  "isCont b = (128 \<le> b \<and> b \<le> 191)"

definition utf8Valid :: "nat \<Rightarrow> nat list \<Rightarrow> bool" where
  "utf8Valid b bs = (list_all isCont bs \<and>
     (case bs of
        [] \<Rightarrow> False
      | b2 # _ \<Rightarrow>
          (if b = 224 then 160 \<le> b2 else if b = 237 then b2 \<le> 159
           else if b = 240 then 144 \<le> b2 else if b = 244 then b2 \<le> 143 else True)))"

function decodeTokens :: "(char \<Rightarrow> bool) \<Rightarrow> uriToken list \<Rightarrow> error + string" where
  "decodeTokens keep [] = Inr []"
| "decodeTokens keep (Lit c # ts) =
     (case decodeTokens keep ts of Inl e \<Rightarrow> Inl e | Inr s \<Rightarrow> Inr (c # s))"
| "decodeTokens keep (Esc h1 h2 b # ts) =
     (if b < 128 then
        (case decodeTokens keep ts of
           Inl e \<Rightarrow> Inl e
         | Inr s \<Rightarrow> Inr ((if keep (char_of b) then [CHR ''%'', h1, h2] else [char_of b]) @ s))
      else
        (let n = utf8Length b; conts = take (n - 1) ts in
         if n = 0 \<or> length conts < n - 1 \<or> \<not> list_all (\<lambda>t. escByte t \<noteq> None) conts
            \<or> \<not> utf8Valid b (map (\<lambda>t. the (escByte t)) conts)
         then Inl URIError
         else
           (case decodeTokens keep (drop (n - 1) ts) of
              Inl e \<Rightarrow> Inl e
            | Inr s \<Rightarrow> Inr (char_of b # map (\<lambda>t. char_of (the (escByte t))) conts @ s))))"
  by pat_completeness auto
termination
  by (relation "measure (\<lambda>(keep, ts). length ts)") auto

definition decodeURIComponent :: "string \<Rightarrow> error + string" where
  "decodeURIComponent s =
     (case unescape s of Inl e \<Rightarrow> Inl e | Inr ts \<Rightarrow> decodeTokens (\<lambda>c. False) ts)"

definition decodeURI :: "string \<Rightarrow> error + string" where
  "decodeURI s =
     (case unescape s of
        Inl e \<Rightarrow> Inl e
      | Inr ts \<Rightarrow> decodeTokens (\<lambda>c. uriReserved c \<or> c = CHR ''#'') ts)"

text \<open>\<^verbatim>\<open>encode\<close> and \<^verbatim>\<open>decode\<close> of \<^verbatim>\<open>router.js\<close> (lines 946 and 953).\<close>

definition encode :: "string \<Rightarrow> string" where
  "encode s = encodeURIComponent s"

definition decode :: "string \<Rightarrow> error + string" where
  "decode s = decodeURIComponent s"

section \<open>The serializer (\<^verbatim>\<open>DefaultUrlSerializer.serialize\<close>, \<^verbatim>\<open>router.js\<close> lines 890-981)\<close>

fun join :: "string \<Rightarrow> string list \<Rightarrow> string" where
  "join sep [] = []"
| "join sep [x] = x"
| "join sep (x # y # ys) = x @ sep @ join sep (y # ys)"

definition serializeParams :: "(string \<times> string) list \<Rightarrow> string" where
  "serializeParams params = concat (map (\<lambda>(k, v). '';'' @ encode k @ ''='' @ encode v) params)"

definition serializePath :: "UrlSegment \<Rightarrow> string" where
  "serializePath p = encode (path p) @ serializeParams (parameters p)"

definition serializePaths :: "UrlSegmentGroup \<Rightarrow> string" where
  "serializePaths segment = join ''/'' (map serializePath (segments segment))"

text \<open>
  \<^verbatim>\<open>mapChildrenIntoArray\<close> visits the primary child first and the others in
  insertion order.
\<close>

definition mapChildrenIntoArray ::
  "(string \<times> 'a) list \<Rightarrow> ('a \<Rightarrow> string \<Rightarrow> 'b list) \<Rightarrow> 'b list" where
  "mapChildrenIntoArray cs fn =
     concat (map (\<lambda>(k, v). fn v k) (filter (\<lambda>(k, v). k = PRIMARY_OUTLET) cs)) @
     concat (map (\<lambda>(k, v). fn v k) (filter (\<lambda>(k, v). k \<noteq> PRIMARY_OUTLET) cs))"

lemma size_child_less:
  "(k, c) \<in> set cs \<Longrightarrow> size c < Suc (size_list (size_prod (\<lambda>_. 0) size) cs)"
  by (induction cs) auto

function serializeSegment :: "UrlSegmentGroup \<Rightarrow> bool \<Rightarrow> string" where
  "serializeSegment (UrlSegmentGroup segs cs) isRoot =
     (if length cs > 0 \<and> isRoot then
        (let primary = (case map_of cs PRIMARY_OUTLET of
                          Some c \<Rightarrow> serializeSegment c False
                        | None \<Rightarrow> []);
             children = map (\<lambda>(k, v). k @ '':'' @ serializeSegment v False)
                            (filter (\<lambda>(k, v). k \<noteq> PRIMARY_OUTLET) cs)
         in if length children > 0 then primary @ ''('' @ join ''//'' children @ '')'' else primary)
      else if length cs > 0 \<and> \<not> isRoot then
        (let children =
               map (\<lambda>(k, v). serializeSegment v False) (filter (\<lambda>(k, v). k = PRIMARY_OUTLET) cs) @
               map (\<lambda>(k, v). k @ '':'' @ serializeSegment v False)
                   (filter (\<lambda>(k, v). k \<noteq> PRIMARY_OUTLET) cs)
         in serializePaths (UrlSegmentGroup segs cs) @ ''/('' @ join ''//'' children @ '')'')
      else serializePaths (UrlSegmentGroup segs cs))"
  by pat_completeness auto
termination
proof (relation "measure (\<lambda>(g, r). size g)", goal_cases)
  case 1
  show ?case by simp
next
  case (2 segs cs isRoot c)
  from 2 have "(PRIMARY_OUTLET, c) \<in> set cs" by (auto dest: map_of_SomeD)
  then show ?case using size_child_less by fastforce
next
  case (3 segs cs isRoot primary kv k v)
  then have "(k, v) \<in> set cs" by auto
  then show ?case using size_child_less by fastforce
next
  case (4 segs cs isRoot kv k v)
  then have "(k, v) \<in> set cs" by auto
  then show ?case using size_child_less by fastforce
next
  case (5 segs cs isRoot kv k v)
  then have "(k, v) \<in> set cs" by auto
  then show ?case using size_child_less by fastforce
qed

definition serializeQueryParams :: "(string \<times> QueryValue) list \<Rightarrow> string" where
  "serializeQueryParams params =
     (let strParams = map (\<lambda>(name, value).
            (case value of
               QArr vs \<Rightarrow> join ''&'' (map (\<lambda>v. encode name @ ''='' @ encode v) vs)
             | QStr v \<Rightarrow> encode name @ ''='' @ encode v)) params
      in if length strParams > 0 then ''?'' @ join ''&'' strParams else [])"

definition serialize :: "UrlTree \<Rightarrow> string" where
  "serialize tree =
     (let segment = ''/'' @ serializeSegment (root tree) True;
          query = serializeQueryParams (queryParams tree);
          frag = (case fragment tree of Some f \<Rightarrow> ''#'' @ encodeURI f | None \<Rightarrow> [])
      in segment @ query @ frag)"

section \<open>The tokenizer (\<^verbatim>\<open>router.js\<close> lines 1006-1035)\<close>

text \<open>
  The three regular expressions have the form \<^verbatim>\<open>/^[^...]+/\<close>: a match is the longest
  non-empty prefix of characters outside the listed set, and there is no match when the first
  character is in the set or the string is empty. \<open>matchClassPlus\<close> is
  \<^verbatim>\<open>str.match(re)\<close> for such an expression, its argument the character class.
\<close>

definition matchClassPlus :: "(char \<Rightarrow> bool) \<Rightarrow> string \<Rightarrow> string option" where
  "matchClassPlus cls str = (let m = takeWhile cls str in if m = [] then None else Some m)"

definition SEGMENT_RE :: "char \<Rightarrow> bool" where
  "SEGMENT_RE c = (c \<notin> set ''/()?;=&#'')"

definition QUERY_PARAM_RE :: "char \<Rightarrow> bool" where
  "QUERY_PARAM_RE c = (c \<notin> set ''=?&#'')"

definition QUERY_PARAM_VALUE_RE :: "char \<Rightarrow> bool" where
  "QUERY_PARAM_VALUE_RE c = (c \<notin> set ''?&#'')"

definition matchSegments :: "string \<Rightarrow> string" where
  "matchSegments str = (case matchClassPlus SEGMENT_RE str of Some m \<Rightarrow> m | None \<Rightarrow> [])"

text \<open>
  \<^verbatim>\<open>matchQueryParams\<close> of \<^verbatim>\<open>router.js\<close> resets
  \<^verbatim>\<open>QUERY_PARAM_RE.lastIndex\<close> and then matches \<^verbatim>\<open>SEGMENT_RE\<close> (line 1023).
\<close>

definition matchQueryParams :: "string \<Rightarrow> string" where
  "matchQueryParams str = (case matchClassPlus SEGMENT_RE str of Some m \<Rightarrow> m | None \<Rightarrow> [])"

definition matchUrlQueryParamValue :: "string \<Rightarrow> string" where
  "matchUrlQueryParamValue str =
     (case matchClassPlus QUERY_PARAM_VALUE_RE str of Some m \<Rightarrow> m | None \<Rightarrow> [])"

text \<open>The same three functions in the later build of the module (\<^verbatim>\<open>src/unnamed/part_000\<close>, lines 582-613).\<close>

definition SEGMENT_RE_part0 :: "char \<Rightarrow> bool" where
  "SEGMENT_RE_part0 c = (c \<notin> set ''/()?;=#'')"

definition matchSegments_part0 :: "string \<Rightarrow> string" where
  "matchSegments_part0 str =
     (case matchClassPlus SEGMENT_RE_part0 str of Some m \<Rightarrow> m | None \<Rightarrow> [])"

definition matchQueryParams_part0 :: "string \<Rightarrow> string" where
  "matchQueryParams_part0 str =
     (case matchClassPlus QUERY_PARAM_RE str of Some m \<Rightarrow> m | None \<Rightarrow> [])"

section \<open>The parser (\<^verbatim>\<open>UrlParser\<close>, \<^verbatim>\<open>router.js\<close> lines 1036-1243)\<close>

text \<open>
  The parser's state is \<^verbatim>\<open>this.remaining\<close>, threaded through every function;
  \<^verbatim>\<open>this.url\<close> never changes and is only read for an error message.
\<close>

definition peekStartsWith :: "string \<Rightarrow> string \<Rightarrow> bool" where
  "peekStartsWith remaining str = prefix str remaining"

definition capture :: "string \<Rightarrow> string \<Rightarrow> error + string" where
  "capture remaining str =
     (if \<not> prefix str remaining then Inl (Error (''Expected '' @ [CHR 0x22] @ str @ [CHR 0x22] @ ''.''))
      else Inr (drop (length str) remaining))"

text \<open>\<^verbatim>\<open>obj[k] = v\<close>: an existing key keeps its place, a new key goes last.\<close>

definition objSet :: "'k \<Rightarrow> 'v \<Rightarrow> ('k \<times> 'v) list \<Rightarrow> ('k \<times> 'v) list" where
  "objSet k v obj = AList.update k v obj"

definition parseParam ::
  "(string \<times> string) list \<Rightarrow> string \<Rightarrow> error + ((string \<times> string) list \<times> string)" where
  "parseParam params remaining =
     (let key = matchSegments remaining in
      if key = [] then Inr (params, remaining)
      else
        (case capture remaining key of
           Inl e \<Rightarrow> Inl e
         | Inr r1 \<Rightarrow>
             (case (if peekStartsWith r1 ''=''
                    then (case capture r1 ''='' of
                            Inl e \<Rightarrow> Inl e
                          | Inr r2 \<Rightarrow>
                              (let valueMatch = matchSegments r2 in
                               if valueMatch \<noteq> []
                               then (case capture r2 valueMatch of
                                       Inl e \<Rightarrow> Inl e
                                     | Inr r3 \<Rightarrow> Inr (valueMatch, r3))
                               else Inr ([], r2)))
                    else Inr ([], r1)) of
                Inl e \<Rightarrow> Inl e
              | Inr (value, r4) \<Rightarrow>
                  (case decode key of
                     Inl e \<Rightarrow> Inl e
                   | Inr dk \<Rightarrow>
                       (case decode value of
                          Inl e \<Rightarrow> Inl e
                        | Inr dv \<Rightarrow> Inr (objSet dk dv params, r4))))))"

lemma capture_length: "capture r str = Inr r' \<Longrightarrow> length r' = length r - length str"
  by (auto simp: capture_def split: if_splits)

lemma parseParam_length: "parseParam params r = Inr (params', r') \<Longrightarrow> length r' \<le> length r"
  by (auto simp: parseParam_def Let_def split: if_splits sum.splits prod.splits
           dest!: capture_length)

function parseMatrixParams ::
  "(string \<times> string) list \<Rightarrow> string \<Rightarrow> error + ((string \<times> string) list \<times> string)" where
  "parseMatrixParams params remaining =
     (if length remaining > 0 \<and> peekStartsWith remaining '';'' then
        (case capture remaining '';'' of
           Inl e \<Rightarrow> Inl e
         | Inr r1 \<Rightarrow>
             (case parseParam params r1 of
                Inl e \<Rightarrow> Inl e
              | Inr (params', r2) \<Rightarrow> parseMatrixParams params' r2))
      else Inr (params, remaining))"
  by pat_completeness auto
termination
proof (relation "measure (\<lambda>(params, r). length r)", goal_cases)
  case 1
  show ?case by simp
next
  case (2 params remaining r1 x params' r2)
  then have "length r1 = length remaining - 1" "length r2 \<le> length r1"
    by (auto dest: capture_length parseParam_length)
  moreover from 2 have "remaining \<noteq> []" by simp
  ultimately show ?case by (cases remaining) simp_all
qed

declare parseMatrixParams.simps [simp del]

definition parseSegments :: "string \<Rightarrow> error + (UrlSegment \<times> string)" where
  "parseSegments remaining =
     (let p = matchSegments remaining in
      if p = [] \<and> peekStartsWith remaining '';''
      then Inl (Error (''Empty path url segment cannot have parameters: '' @ [CHR 0x27] @ remaining
                        @ [CHR 0x27] @ ''.''))
      else
        (case capture remaining p of
           Inl e \<Rightarrow> Inl e
         | Inr r1 \<Rightarrow>
             (case (if peekStartsWith r1 '';'' then parseMatrixParams [] r1 else Inr ([], r1)) of
                Inl e \<Rightarrow> Inl e
              | Inr (matrixParams, r2) \<Rightarrow>
                  (case decode p of
                     Inl e \<Rightarrow> Inl e
                   | Inr dp \<Rightarrow> Inr (UrlSegment dp matrixParams, r2)))))"

lemma parseMatrixParams_length:
  "parseMatrixParams params r = Inr (params', r') \<Longrightarrow> length r' \<le> length r"
proof (induction params r rule: parseMatrixParams.induct)
  case (1 params remaining)
  show ?case
  proof (cases "length remaining > 0 \<and> peekStartsWith remaining '';''")
    case False
    with 1(2) show ?thesis by (subst (asm) parseMatrixParams.simps) auto
  next
    case True
    from 1(2) True obtain r1 ps r2 where
      c: "capture remaining '';'' = Inr r1" and pp: "parseParam params r1 = Inr (ps, r2)"
      and rest: "parseMatrixParams ps r2 = Inr (params', r')"
      by (subst (asm) parseMatrixParams.simps) (auto split: sum.splits prod.splits)
    from 1(1)[OF True c pp refl rest] have "length r' \<le> length r2" .
    moreover from pp have "length r2 \<le> length r1" by (rule parseParam_length)
    moreover from c have "length r1 \<le> length remaining" by (auto dest: capture_length)
    ultimately show ?thesis by simp
  qed
qed

lemma parseSegments_length: "parseSegments r = Inr (s, r') \<Longrightarrow> length r' \<le> length r"
  by (auto simp: parseSegments_def Let_def split: if_splits sum.splits prod.splits
           dest!: capture_length parseMatrixParams_length)

text \<open>The \<^verbatim>\<open>while\<close> loop of \<^verbatim>\<open>parseChildren\<close> that collects the segments after the first.\<close>

function parseChildrenLoop ::
  "UrlSegment list \<Rightarrow> string \<Rightarrow> error + (UrlSegment list \<times> string)" where
  "parseChildrenLoop paths remaining =
     (if peekStartsWith remaining ''/'' \<and> \<not> peekStartsWith remaining ''//''
         \<and> \<not> peekStartsWith remaining ''/(''
      then
        (case capture remaining ''/'' of
           Inl e \<Rightarrow> Inl e
         | Inr r1 \<Rightarrow>
             (case parseSegments r1 of
                Inl e \<Rightarrow> Inl e
              | Inr (seg, r2) \<Rightarrow> parseChildrenLoop (paths @ [seg]) r2))
      else Inr (paths, remaining))"
  by pat_completeness auto
termination
proof (relation "measure (\<lambda>(paths, r). length r)", goal_cases)
  case 1
  show ?case by simp
next
  case (2 paths remaining r1 x seg r2)
  then have "length r1 = length remaining - 1" "length r2 \<le> length r1"
    by (auto dest: capture_length parseSegments_length)
  moreover from 2 have "remaining \<noteq> []" by (auto simp: peekStartsWith_def)
  ultimately show ?case by (cases remaining) simp_all
qed

declare parseChildrenLoop.simps [simp del]

text \<open>
  \<^verbatim>\<open>new UrlSegmentGroup(segments, children)\<close> runs
  \<^verbatim>\<open>forEach(children, (v, k) => v.parent = this)\<close>, a \<^verbatim>\<open>TypeError\<close> when a
  value of the map is \<^verbatim>\<open>undefined\<close>. The maps the parser builds can hold
  \<^verbatim>\<open>undefined\<close> (\<^verbatim>\<open>parseParens\<close> stores \<^verbatim>\<open>children[PRIMARY_OUTLET]\<close>
  without looking whether the key is there), so their values are options, \<open>None\<close> being
  \<^verbatim>\<open>undefined\<close>. The parent pointers themselves are the subject of the store model
  further below.
\<close>

definition newUrlSegmentGroup ::
  "UrlSegment list \<Rightarrow> (string \<times> UrlSegmentGroup option) list \<Rightarrow> error + UrlSegmentGroup" where
  "newUrlSegmentGroup segs cs =
     (if list_ex (\<lambda>(k, v). v = None) cs then Inl TypeError
      else Inr (UrlSegmentGroup segs (map (\<lambda>(k, v). (k, the v)) cs)))"

text \<open>
  \<^verbatim>\<open>parseChildren\<close> and \<^verbatim>\<open>parseParens\<close> call each other, and the loop of
  \<^verbatim>\<open>parseParens\<close> continues on what \<^verbatim>\<open>parseChildren\<close> left of the input. The
  bodies are written once, with the functions they call as arguments: \<open>parseChildrenBody\<close> is
  the body of \<^verbatim>\<open>parseChildren\<close> given \<^verbatim>\<open>parseParens\<close>, and
  \<open>parseParensIter\<close> is the loop of \<^verbatim>\<open>parseParens\<close> (its test, one iteration, and the
  \<^verbatim>\<open>capture(')')\<close> after it) given \<^verbatim>\<open>parseChildren\<close> and the rest of the loop.
  The recursive functions below tie them together; their first argument is fuel, one unit for
  every call, and \<open>parse\<close> supplies enough of it.
\<close>

type_synonym childrenMap = "(string \<times> UrlSegmentGroup option) list"

definition parseChildrenBody ::
  "(bool \<Rightarrow> string \<Rightarrow> error + (childrenMap \<times> string)) \<Rightarrow> string
     \<Rightarrow> error + (childrenMap \<times> string)" where
  "parseChildrenBody parseParens' remaining =
     (if length remaining = 0 then Inr ([], remaining)
      else
        (case (if peekStartsWith remaining ''/'' then capture remaining ''/'' else Inr remaining) of
           Inl e \<Rightarrow> Inl e
         | Inr r1 \<Rightarrow>
        (case (if \<not> peekStartsWith r1 ''(''
               then (case parseSegments r1 of Inl e \<Rightarrow> Inl e | Inr (seg, r) \<Rightarrow> Inr ([seg], r))
               else Inr ([], r1)) of
           Inl e \<Rightarrow> Inl e
         | Inr (paths0, r2) \<Rightarrow>
        (case parseChildrenLoop paths0 r2 of
           Inl e \<Rightarrow> Inl e
         | Inr (paths, r3) \<Rightarrow>
        (case (if peekStartsWith r3 ''/(''
               then (case capture r3 ''/'' of
                       Inl e \<Rightarrow> Inl e
                     | Inr r \<Rightarrow> parseParens' True r)
               else Inr ([], r3)) of
           Inl e \<Rightarrow> Inl e
         | Inr (chs, r4) \<Rightarrow>
        (case (if peekStartsWith r4 ''('' then parseParens' False r4 else Inr ([], r4)) of
           Inl e \<Rightarrow> Inl e
         | Inr (res, r5) \<Rightarrow>
             (if length paths > 0 \<or> length chs > 0
              then (case newUrlSegmentGroup paths chs of
                      Inl e \<Rightarrow> Inl e
                    | Inr g \<Rightarrow> Inr (objSet PRIMARY_OUTLET (Some g) res, r5))
              else Inr (res, r5))))))))"

definition parseParensIter ::
  "string \<Rightarrow> bool \<Rightarrow> (string \<Rightarrow> error + (childrenMap \<times> string))
     \<Rightarrow> (childrenMap \<Rightarrow> string \<Rightarrow> error + (childrenMap \<times> string))
     \<Rightarrow> childrenMap \<Rightarrow> string \<Rightarrow> error + (childrenMap \<times> string)" where
  "parseParensIter url allowPrimary parseChildren' loop' segs remaining =
     (if \<not> peekStartsWith remaining '')'' \<and> length remaining > 0 then
        (let p = matchSegments remaining;
             next = (if length p < length remaining then Some (remaining ! length p) else None)
         in if next \<noteq> Some CHR ''/'' \<and> next \<noteq> Some CHR '')'' \<and> next \<noteq> Some CHR '';''
            then Inl (Error (''Cannot parse url '' @ [CHR 0x27] @ url @ [CHR 0x27]))
            else
              (case (if CHR '':'' \<in> set p
                     then (let outletName = takeWhile (\<lambda>c. c \<noteq> CHR '':'') p in
                           case capture remaining outletName of
                             Inl e \<Rightarrow> Inl e
                           | Inr r \<Rightarrow>
                               (case capture r '':'' of
                                  Inl e \<Rightarrow> Inl e
                                | Inr r' \<Rightarrow> Inr (outletName, r')))
                     else if allowPrimary then Inr (PRIMARY_OUTLET, remaining)
                     else Inr (''undefined'', remaining)) of
                 Inl e \<Rightarrow> Inl e
               | Inr (outletName, r1) \<Rightarrow>
              (case parseChildren' r1 of
                 Inl e \<Rightarrow> Inl e
               | Inr (chs, r2) \<Rightarrow>
              (case (if length chs = 1
                     then Inr (case map_of chs PRIMARY_OUTLET of Some v \<Rightarrow> v | None \<Rightarrow> None)
                     else (case newUrlSegmentGroup [] chs of
                             Inl e \<Rightarrow> Inl e
                           | Inr g \<Rightarrow> Inr (Some g))) of
                 Inl e \<Rightarrow> Inl e
               | Inr v \<Rightarrow>
              (case (if peekStartsWith r2 ''//'' then capture r2 ''//'' else Inr r2) of
                 Inl e \<Rightarrow> Inl e
               | Inr r3 \<Rightarrow> loop' (objSet outletName v segs) r3)))))
      else
        (case capture remaining '')'' of
           Inl e \<Rightarrow> Inl e
         | Inr r \<Rightarrow> Inr (segs, r)))"

fun parseChildren :: "nat \<Rightarrow> string \<Rightarrow> string \<Rightarrow> error + (childrenMap \<times> string)"
  and parseParens :: "nat \<Rightarrow> string \<Rightarrow> bool \<Rightarrow> string \<Rightarrow> error + (childrenMap \<times> string)"
  and parseParensLoop ::
    "nat \<Rightarrow> string \<Rightarrow> bool \<Rightarrow> childrenMap \<Rightarrow> string \<Rightarrow> error + (childrenMap \<times> string)"
where
  "parseChildren 0 url remaining = Inl OutOfFuel"
| "parseChildren (Suc n) url remaining =
     parseChildrenBody (\<lambda>allowPrimary r. parseParens n url allowPrimary r) remaining"
| "parseParens 0 url allowPrimary remaining = Inl OutOfFuel"
| "parseParens (Suc n) url allowPrimary remaining =
     (case capture remaining ''('' of
        Inl e \<Rightarrow> Inl e
      | Inr r \<Rightarrow> parseParensLoop n url allowPrimary [] r)"
| "parseParensLoop 0 url allowPrimary segs remaining = Inl OutOfFuel"
| "parseParensLoop (Suc n) url allowPrimary segs remaining =
     parseParensIter url allowPrimary (\<lambda>r. parseChildren n url r)
       (\<lambda>segs' r. parseParensLoop n url allowPrimary segs' r) segs remaining"

definition parseFuel :: "string \<Rightarrow> nat" where
  "parseFuel url = 3 * length url + 3"

definition parseRootSegment :: "string \<Rightarrow> string \<Rightarrow> error + (UrlSegmentGroup \<times> string)" where
  "parseRootSegment url remaining =
     (case (if prefix ''/'' remaining then capture remaining ''/'' else Inr remaining) of
        Inl e \<Rightarrow> Inl e
      | Inr r1 \<Rightarrow>
          (if r1 = [] \<or> prefix ''?'' r1 \<or> prefix ''#'' r1 then Inr (UrlSegmentGroup [] [], r1)
           else
             (case parseChildren (parseFuel url) url r1 of
                Inl e \<Rightarrow> Inl e
              | Inr (cs, r2) \<Rightarrow>
                  (case newUrlSegmentGroup [] cs of
                     Inl e \<Rightarrow> Inl e
                   | Inr g \<Rightarrow> Inr (g, r2)))))"

definition parseQueryParam ::
  "(string \<times> QueryValue) list \<Rightarrow> string \<Rightarrow> error + ((string \<times> QueryValue) list \<times> string)" where
  "parseQueryParam params remaining =
     (let key = matchQueryParams remaining in
      if key = [] then Inr (params, remaining)
      else
        (case capture remaining key of
           Inl e \<Rightarrow> Inl e
         | Inr r1 \<Rightarrow>
             (case (if peekStartsWith r1 ''=''
                    then (case capture r1 ''='' of
                            Inl e \<Rightarrow> Inl e
                          | Inr r2 \<Rightarrow>
                              (let valueMatch = matchUrlQueryParamValue r2 in
                               if valueMatch \<noteq> []
                               then (case capture r2 valueMatch of
                                       Inl e \<Rightarrow> Inl e
                                     | Inr r3 \<Rightarrow> Inr (valueMatch, r3))
                               else Inr ([], r2)))
                    else Inr ([], r1)) of
                Inl e \<Rightarrow> Inl e
              | Inr (value, r4) \<Rightarrow>
                  (case decode key of
                     Inl e \<Rightarrow> Inl e
                   | Inr decodedKey \<Rightarrow>
                       (case decode value of
                          Inl e \<Rightarrow> Inl e
                        | Inr decodedVal \<Rightarrow>
                            (case map_of params decodedKey of
                               Some (QArr vs) \<Rightarrow>
                                 Inr (objSet decodedKey (QArr (vs @ [decodedVal])) params, r4)
                             | Some (QStr v) \<Rightarrow>
                                 Inr (objSet decodedKey (QArr [v, decodedVal]) params, r4)
                             | None \<Rightarrow> Inr (objSet decodedKey (QStr decodedVal) params, r4)))))))"

lemma parseQueryParam_length:
  "parseQueryParam params r = Inr (params', r') \<Longrightarrow> length r' \<le> length r"
  by (auto simp: parseQueryParam_def Let_def
           split: if_splits sum.splits prod.splits option.splits QueryValue.splits
           dest!: capture_length)

function parseQueryParamsLoop ::
  "(string \<times> QueryValue) list \<Rightarrow> string \<Rightarrow> error + ((string \<times> QueryValue) list \<times> string)" where
  "parseQueryParamsLoop params remaining =
     (if length remaining > 0 \<and> peekStartsWith remaining ''&'' then
        (case capture remaining ''&'' of
           Inl e \<Rightarrow> Inl e
         | Inr r1 \<Rightarrow>
             (case parseQueryParam params r1 of
                Inl e \<Rightarrow> Inl e
              | Inr (params', r2) \<Rightarrow> parseQueryParamsLoop params' r2))
      else Inr (params, remaining))"
  by pat_completeness auto
termination
proof (relation "measure (\<lambda>(params, r). length r)", goal_cases)
  case 1
  show ?case by simp
next
  case (2 params remaining r1 x params' r2)
  then have "length r1 = length remaining - 1" "length r2 \<le> length r1"
    by (auto dest: capture_length parseQueryParam_length)
  moreover from 2 have "remaining \<noteq> []" by simp
  ultimately show ?case by (cases remaining) simp_all
qed

declare parseQueryParamsLoop.simps [simp del]

definition parseQueryParams ::
  "string \<Rightarrow> error + ((string \<times> QueryValue) list \<times> string)" where
  "parseQueryParams remaining =
     (if peekStartsWith remaining ''?'' then
        (case capture remaining ''?'' of
           Inl e \<Rightarrow> Inl e
         | Inr r1 \<Rightarrow>
             (case parseQueryParam [] r1 of
                Inl e \<Rightarrow> Inl e
              | Inr (params, r2) \<Rightarrow> parseQueryParamsLoop params r2))
      else Inr ([], remaining))"

definition parseFragment :: "string \<Rightarrow> error + string option" where
  "parseFragment remaining =
     (if peekStartsWith remaining ''#''
      then (case decodeURI (drop 1 remaining) of Inl e \<Rightarrow> Inl e | Inr f \<Rightarrow> Inr (Some f))
      else Inr None)"

text \<open>\<^verbatim>\<open>DefaultUrlSerializer.parse\<close>: the three parts are parsed in this order, and whatever is left of the input afterwards is ignored.\<close>

definition parse :: "string \<Rightarrow> error + UrlTree" where
  "parse url =
     (case parseRootSegment url url of
        Inl e \<Rightarrow> Inl e
      | Inr (r, rem1) \<Rightarrow>
          (case parseQueryParams rem1 of
             Inl e \<Rightarrow> Inl e
           | Inr (q, rem2) \<Rightarrow>
               (case parseFragment rem2 of
                  Inl e \<Rightarrow> Inl e
                | Inr f \<Rightarrow> Inr \<lparr>root = r, queryParams = q, fragment = f\<rparr>)))"

section \<open>Properties of the tokenizer and the parser\<close>

lemma matchClassPlus_takeWhile:
  "(case matchClassPlus cls str of Some m \<Rightarrow> m | None \<Rightarrow> []) = takeWhile cls str"
  by (simp add: matchClassPlus_def Let_def)

text \<open>
  In the later build the segment token and the query-parameter key are the longest prefixes
  outside \<^verbatim>\<open>/()?;=#\<close> and \<^verbatim>\<open>=?&#\<close>: a prefix, made of
  characters of the class only, and followed by the end of the input or by a character outside
  the class.
\<close>

lemma matchSegments_part0_maximal:
  "\<exists>rest. str = matchSegments_part0 str @ rest
      \<and> list_all SEGMENT_RE_part0 (matchSegments_part0 str)
      \<and> (rest = [] \<or> \<not> SEGMENT_RE_part0 (hd rest))"
proof -
  have m: "matchSegments_part0 str = takeWhile SEGMENT_RE_part0 str"
    by (simp add: matchSegments_part0_def matchClassPlus_takeWhile)
  have "str = takeWhile SEGMENT_RE_part0 str @ dropWhile SEGMENT_RE_part0 str" by simp
  moreover have "list_all SEGMENT_RE_part0 (takeWhile SEGMENT_RE_part0 str)"
    by (simp add: list_all_iff) (meson set_takeWhileD)
  moreover have "dropWhile SEGMENT_RE_part0 str = [] \<or> \<not> SEGMENT_RE_part0 (hd (dropWhile SEGMENT_RE_part0 str))"
    using hd_dropWhile by blast
  ultimately show ?thesis unfolding m by blast
qed

lemma matchQueryParams_part0_maximal:
  "\<exists>rest. str = matchQueryParams_part0 str @ rest
      \<and> list_all QUERY_PARAM_RE (matchQueryParams_part0 str)
      \<and> (rest = [] \<or> \<not> QUERY_PARAM_RE (hd rest))"
proof -
  have m: "matchQueryParams_part0 str = takeWhile QUERY_PARAM_RE str"
    by (simp add: matchQueryParams_part0_def matchClassPlus_takeWhile)
  have "str = takeWhile QUERY_PARAM_RE str @ dropWhile QUERY_PARAM_RE str" by simp
  moreover have "list_all QUERY_PARAM_RE (takeWhile QUERY_PARAM_RE str)"
    by (simp add: list_all_iff) (meson set_takeWhileD)
  moreover have "dropWhile QUERY_PARAM_RE str = [] \<or> \<not> QUERY_PARAM_RE (hd (dropWhile QUERY_PARAM_RE str))"
    using hd_dropWhile by blast
  ultimately show ?thesis unfolding m by blast
qed

text \<open>
  Claim C3 (query-parameter keys are the longest prefix matching \<^verbatim>\<open>[^=?&#]+\<close>, and
  \<^verbatim>\<open>parse\<close> consumes exactly these tokens). In \<^verbatim>\<open>router.js\<close> the function
  \<^verbatim>\<open>matchQueryParams\<close> matches \<^verbatim>\<open>SEGMENT_RE\<close> instead of
  \<^verbatim>\<open>QUERY_PARAM_RE\<close>, so a key stops at the first of \<^verbatim>\<open>/ ( ) ;\<close> as well.
  On the URL \<^verbatim>\<open>/a?k;x=1\<close> the token class of the claim gives the key
  \<^verbatim>\<open>k;x\<close> (as the later build of the function does) with the value \<^verbatim>\<open>1\<close>;
  \<^verbatim>\<open>router.js\<close> takes the key \<^verbatim>\<open>k\<close>, finds no \<^verbatim>\<open>=\<close> after it, and
  returns the query map \<^verbatim>\<open>{k: ''}\<close>, dropping the rest of the input.
\<close>

theorem C3_query_key_token_divergence:
  "matchQueryParams ''k;x=1'' = ''k''
   \<and> takeWhile QUERY_PARAM_RE ''k;x=1'' = ''k;x''
   \<and> matchQueryParams_part0 ''k;x=1'' = ''k;x''
   \<and> parse ''/a?k;x=1'' =
       Inr \<lparr>root = UrlSegmentGroup [] [(''primary'', UrlSegmentGroup [UrlSegment ''a'' []] [])],
            queryParams = [(''k'', QStr [])], fragment = None\<rparr>"
  by code_simp

text \<open>
  Claim C8, as amended (the round trip of \<^verbatim>\<open>/inbox/33(popup:compose)?debug=true#frag\<close>).
  The parser returns a tree whose root has no segments and two children: \<^verbatim>\<open>primary\<close>, the
  group of the segments \<^verbatim>\<open>inbox\<close> and \<^verbatim>\<open>33\<close> with no children of its own, and
  \<^verbatim>\<open>popup\<close>, the group of the single segment \<^verbatim>\<open>compose\<close>. Both are entries of the
  root's children map (the parenthesis follows the segments without a slash, so
  \<^verbatim>\<open>parseChildren\<close> reads it with \<^verbatim>\<open>parseParens(false)\<close> into the map it returns to
  the root). The query map is \<^verbatim>\<open>{debug: "true"}\<close>, the fragment is \<^verbatim>\<open>frag\<close>, and
  serializing the tree gives the input back.
\<close>

theorem C8_parse_serialize_example:
  "parse ''/inbox/33(popup:compose)?debug=true#frag'' =
     Inr \<lparr>root = UrlSegmentGroup []
            [(''popup'', UrlSegmentGroup [UrlSegment ''compose'' []] []),
             (''primary'', UrlSegmentGroup [UrlSegment ''inbox'' [], UrlSegment ''33'' []] [])],
          queryParams = [(''debug'', QStr ''true'')],
          fragment = Some ''frag''\<rparr>
   \<and> serialize \<lparr>root = UrlSegmentGroup []
            [(''popup'', UrlSegmentGroup [UrlSegment ''compose'' []] []),
             (''primary'', UrlSegmentGroup [UrlSegment ''inbox'' [], UrlSegment ''33'' []] [])],
          queryParams = [(''debug'', QStr ''true'')],
          fragment = Some ''frag''\<rparr>
       = ''/inbox/33(popup:compose)?debug=true#frag''"
  by code_simp

text \<open>
  Claim C8 as stated puts \<^verbatim>\<open>popup\<close> into the children map of the primary child. In the
  tree the parser returns, the primary child has the segments \<^verbatim>\<open>inbox\<close> and \<^verbatim>\<open>33\<close>
  and an empty children map, with no entry for \<^verbatim>\<open>popup\<close>; the entry is in the root's map.
\<close>

theorem C8_counterexample:
  "(case parse ''/inbox/33(popup:compose)?debug=true#frag'' of
      Inl e \<Rightarrow> False
    | Inr t \<Rightarrow>
        (case map_of (children (root t)) PRIMARY_OUTLET of
           None \<Rightarrow> False
         | Some primaryChild \<Rightarrow>
             segments primaryChild = [UrlSegment ''inbox'' [], UrlSegment ''33'' []]
             \<and> map_of (children primaryChild) ''popup'' = None
             \<and> map_of (children (root t)) ''popup''
                 = Some (UrlSegmentGroup [UrlSegment ''compose'' []] [])))"
  by code_simp

section \<open>Route configuration and its validation\<close>

text \<open>
  A \<^verbatim>\<open>Route\<close> is a record of optional fields (\<open>None\<close> is \<^verbatim>\<open>undefined\<close>).
  Components, matchers, guards and loader callbacks are functions or classes of the application;
  the model keeps their identity as a number. \<^verbatim>\<open>loadChildren\<close> is a string or a
  callback. An element of a \<^verbatim>\<open>Routes\<close> array is a route with its
  \<^verbatim>\<open>children\<close> and its \<^verbatim>\<open>_loadedConfig\<close> slot (the routes and the module of the
  loaded configuration), or \<^verbatim>\<open>undefined\<close> (the hole an extra comma leaves), or a nested
  array. The fields \<open>path_r\<close> and \<open>children_r\<close> are \<^verbatim>\<open>path\<close> and
  \<^verbatim>\<open>children\<close>, renamed apart from the fields of the URL tree.
\<close>

datatype LoadChildren = LoadString string | LoadCallback nat

record RouteFields =
  path_r :: "string option"
  pathMatch :: "string option"
  matcher :: "nat option"
  component :: "nat option"
  redirectTo :: "string option"
  outlet :: "string option"
  canActivate :: "nat list option"
  canActivateChild :: "nat list option"
  canDeactivate :: "nat list option"
  canLoad :: "nat list option"
  loadChildren :: "LoadChildren option"

datatype Route =
    UndefinedRoute
  | ArrayRoute
  | Route (fields: RouteFields) (children_r: "Route list option")
          (loadedConfig: "(Route list \<times> nat) option")

text \<open>JavaScript truthiness of the values a field can hold: a string is truthy unless it is empty, and an array, a class or a function is always truthy.\<close>

definition truthyStr :: "string option \<Rightarrow> bool" where
  "truthyStr v = (case v of None \<Rightarrow> False | Some s \<Rightarrow> s \<noteq> [])"

definition truthyLoad :: "LoadChildren option \<Rightarrow> bool" where
  "truthyLoad v = (case v of None \<Rightarrow> False | Some (LoadString s) \<Rightarrow> s \<noteq> [] | Some (LoadCallback f) \<Rightarrow> True)"

definition getFullPath :: "string \<Rightarrow> Route \<Rightarrow> string" where
  "getFullPath parentPath currentRoute =
     (case currentRoute of
        UndefinedRoute \<Rightarrow> parentPath
      | ArrayRoute \<Rightarrow> (if parentPath = [] then [] else parentPath @ ''/'')
      | Route f cs lc \<Rightarrow>
          (if parentPath = [] \<and> \<not> truthyStr (path_r f) then []
           else if parentPath \<noteq> [] \<and> \<not> truthyStr (path_r f) then parentPath @ ''/''
           else if parentPath = [] \<and> truthyStr (path_r f) then the (path_r f)
           else parentPath @ ''/'' @ the (path_r f)))"

definition invalidRoute :: "string \<Rightarrow> string \<Rightarrow> error" where
  "invalidRoute fullPath what =
     Error (''Invalid configuration of route '' @ [CHR 0x27] @ fullPath @ [CHR 0x27] @ what)"

definition undefinedRouteMessage :: "string \<Rightarrow> string" where
  "undefinedRouteMessage fullPath =
     [CHR 0x0A] @ ''      Invalid configuration of route '' @ [CHR 0x27] @ fullPath @ [CHR 0x27]
     @ '': Encountered undefined route.'' @ [CHR 0x0A]
     @ ''      The reason might be an extra comma.'' @ [CHR 0x0A] @ [CHR 0x0A]
     @ ''      Example:'' @ [CHR 0x0A]
     @ ''      const routes: Routes = ['' @ [CHR 0x0A]
     @ ''        { path: '' @ [CHR 0x27, CHR 0x27] @ '', redirectTo: '' @ [CHR 0x27] @ ''/dashboard''
     @ [CHR 0x27] @ '', pathMatch: '' @ [CHR 0x27] @ ''full'' @ [CHR 0x27] @ '' },'' @ [CHR 0x0A]
     @ ''        { path: '' @ [CHR 0x27] @ ''dashboard'' @ [CHR 0x27]
     @ '',  component: DashboardComponent },, << two commas'' @ [CHR 0x0A]
     @ ''        { path: '' @ [CHR 0x27] @ ''detail/:id'' @ [CHR 0x27]
     @ '', component: HeroDetailComponent }'' @ [CHR 0x0A]
     @ ''      ];'' @ [CHR 0x0A] @ ''    ''"

definition pathMatchMessage :: "string \<Rightarrow> string \<Rightarrow> string" where
  "pathMatchMessage fullPath redirect =
     ''Invalid configuration of route '' @ [CHR 0x27] @ ''{path: '' @ [CHR 0x22] @ fullPath @ [CHR 0x22]
     @ '', redirectTo: '' @ [CHR 0x22] @ redirect @ [CHR 0x22] @ ''}'' @ [CHR 0x27]
     @ '': please provide '' @ [CHR 0x27] @ ''pathMatch'' @ [CHR 0x27] @ ''. ''
     @ ''The default value of '' @ [CHR 0x27] @ ''pathMatch'' @ [CHR 0x27] @ '' is '' @ [CHR 0x27]
     @ ''prefix'' @ [CHR 0x27] @ '', but often the intent is to use '' @ [CHR 0x27] @ ''full''
     @ [CHR 0x27] @ ''.''"

text \<open>
  The checks of \<^verbatim>\<open>validateNode\<close> on a route object, in the order of
  \<^verbatim>\<open>router.js\<close> lines 1866-1899; \<open>hasChildren_r\<close> tells whether
  \<^verbatim>\<open>route.children\<close> is set. The result is the first error thrown, if any.
\<close>

definition validateNodeChecks :: "RouteFields \<Rightarrow> bool \<Rightarrow> string \<Rightarrow> error option" where
  "validateNodeChecks r hasChildren_r fullPath =
     (if component r = None \<and> (truthyStr (outlet r) \<and> outlet r \<noteq> Some PRIMARY_OUTLET)
      then Some (invalidRoute fullPath '': a componentless route cannot have a named outlet set'')
      else if truthyStr (redirectTo r) \<and> hasChildren_r
      then Some (invalidRoute fullPath '': redirectTo and children cannot be used together'')
      else if truthyStr (redirectTo r) \<and> truthyLoad (loadChildren r)
      then Some (invalidRoute fullPath '': redirectTo and loadChildren cannot be used together'')
      else if hasChildren_r \<and> truthyLoad (loadChildren r)
      then Some (invalidRoute fullPath '': children and loadChildren cannot be used together'')
      else if truthyStr (redirectTo r) \<and> component r \<noteq> None
      then Some (invalidRoute fullPath '': redirectTo and component cannot be used together'')
      else if truthyStr (path_r r) \<and> matcher r \<noteq> None
      then Some (invalidRoute fullPath '': path and matcher cannot be used together'')
      else if redirectTo r = None \<and> component r = None \<and> \<not> hasChildren_r
              \<and> \<not> truthyLoad (loadChildren r)
      then Some (invalidRoute fullPath
                  ''. One of the following must be provided: component, redirectTo, children or loadChildren'')
      else if path_r r = None \<and> matcher r = None
      then Some (invalidRoute fullPath '': routes must have either a path or a matcher specified'')
      else if (case path_r r of Some (c # cs) \<Rightarrow> c = CHR ''/'' | _ \<Rightarrow> False)
      then Some (invalidRoute fullPath '': path cannot start with a slash'')
      else if path_r r = Some [] \<and> redirectTo r \<noteq> None \<and> pathMatch r = None
      then Some (Error (pathMatchMessage fullPath (the (redirectTo r))))
      else if pathMatch r \<noteq> None \<and> pathMatch r \<noteq> Some ''full'' \<and> pathMatch r \<noteq> Some ''prefix''
      then Some (invalidRoute fullPath
                  ('': pathMatch can only be set to '' @ [CHR 0x27] @ ''prefix'' @ [CHR 0x27] @ '' or ''
                   @ [CHR 0x27] @ ''full'' @ [CHR 0x27]))
      else None)"

fun validateConfig :: "Route list \<Rightarrow> string \<Rightarrow> error + unit"
  and validateNode :: "Route \<Rightarrow> string \<Rightarrow> error + unit"
where
  "validateConfig [] parentPath = Inr ()"
| "validateConfig (route # config) parentPath =
     (case validateNode route (getFullPath parentPath route) of
        Inl e \<Rightarrow> Inl e
      | Inr u \<Rightarrow> validateConfig config parentPath)"
| "validateNode UndefinedRoute fullPath = Inl (Error (undefinedRouteMessage fullPath))"
| "validateNode ArrayRoute fullPath = Inl (invalidRoute fullPath '': Array cannot be specified'')"
| "validateNode (Route r cs lc) fullPath =
     (case validateNodeChecks r (cs \<noteq> None) fullPath of
        Some e \<Rightarrow> Inl e
      | None \<Rightarrow> (case cs of Some config \<Rightarrow> validateConfig config fullPath | None \<Rightarrow> Inr ()))"

text \<open>
  The later build of the validator (\<^verbatim>\<open>src/esm2020/src/utils/config.mjs\<close>, lines 19-84).
  Its checks run only when \<^verbatim>\<open>ngDevMode\<close> is undefined or truthy (\<open>None\<close> is undefined);
  the named-outlet check spares a route with children or \<^verbatim>\<open>loadChildren\<close>, the check of
  \<^verbatim>\<open>redirectTo\<close> with \<^verbatim>\<open>canActivate\<close> is new, and the check of the value of
  \<^verbatim>\<open>pathMatch\<close> is gone.
\<close>

definition validateNodeChecks_esm :: "RouteFields \<Rightarrow> bool \<Rightarrow> string \<Rightarrow> error option" where
  "validateNodeChecks_esm r hasChildren_r fullPath =
     (if component r = None \<and> \<not> hasChildren_r \<and> \<not> truthyLoad (loadChildren r)
         \<and> (truthyStr (outlet r) \<and> outlet r \<noteq> Some PRIMARY_OUTLET)
      then Some (invalidRoute fullPath
                  '': a componentless route without children or loadChildren cannot have a named outlet set'')
      else if truthyStr (redirectTo r) \<and> hasChildren_r
      then Some (invalidRoute fullPath '': redirectTo and children cannot be used together'')
      else if truthyStr (redirectTo r) \<and> truthyLoad (loadChildren r)
      then Some (invalidRoute fullPath '': redirectTo and loadChildren cannot be used together'')
      else if hasChildren_r \<and> truthyLoad (loadChildren r)
      then Some (invalidRoute fullPath '': children and loadChildren cannot be used together'')
      else if truthyStr (redirectTo r) \<and> component r \<noteq> None
      then Some (invalidRoute fullPath '': redirectTo and component cannot be used together'')
      else if truthyStr (redirectTo r) \<and> canActivate r \<noteq> None
      then Some (invalidRoute fullPath
                  ('': redirectTo and canActivate cannot be used together. Redirects happen before activation ''
                   @ ''so canActivate will never be executed.''))
      else if truthyStr (path_r r) \<and> matcher r \<noteq> None
      then Some (invalidRoute fullPath '': path and matcher cannot be used together'')
      else if redirectTo r = None \<and> component r = None \<and> \<not> hasChildren_r
              \<and> \<not> truthyLoad (loadChildren r)
      then Some (invalidRoute fullPath
                  ''. One of the following must be provided: component, redirectTo, children or loadChildren'')
      else if path_r r = None \<and> matcher r = None
      then Some (invalidRoute fullPath '': routes must have either a path or a matcher specified'')
      else if (case path_r r of Some (c # cs) \<Rightarrow> c = CHR ''/'' | _ \<Rightarrow> False)
      then Some (invalidRoute fullPath '': path cannot start with a slash'')
      else if path_r r = Some [] \<and> redirectTo r \<noteq> None \<and> pathMatch r = None
      then Some (Error (pathMatchMessage fullPath (the (redirectTo r))))
      else None)"

definition devMode :: "bool option \<Rightarrow> bool" where
  "devMode ngDevMode = (ngDevMode = None \<or> ngDevMode = Some True)"

fun validateConfig_esm :: "bool option \<Rightarrow> Route list \<Rightarrow> string \<Rightarrow> error + unit"
  and validateNode_esm :: "bool option \<Rightarrow> Route \<Rightarrow> string \<Rightarrow> error + unit"
where
  "validateConfig_esm ngDevMode [] parentPath = Inr ()"
| "validateConfig_esm ngDevMode (route # config) parentPath =
     (case validateNode_esm ngDevMode route (getFullPath parentPath route) of
        Inl e \<Rightarrow> Inl e
      | Inr u \<Rightarrow> validateConfig_esm ngDevMode config parentPath)"
| "validateNode_esm ngDevMode UndefinedRoute fullPath =
     (if devMode ngDevMode then Inl (Error (undefinedRouteMessage fullPath)) else Inl TypeError)"
| "validateNode_esm ngDevMode ArrayRoute fullPath =
     (if devMode ngDevMode then Inl (invalidRoute fullPath '': Array cannot be specified'') else Inr ())"
| "validateNode_esm ngDevMode (Route r cs lc) fullPath =
     (case (if devMode ngDevMode then validateNodeChecks_esm r (cs \<noteq> None) fullPath else None) of
        Some e \<Rightarrow> Inl e
      | None \<Rightarrow>
          (case cs of Some config \<Rightarrow> validateConfig_esm ngDevMode config fullPath | None \<Rightarrow> Inr ()))"

subsection \<open>Validation of routes with \<^verbatim>\<open>redirectTo\<close>\<close>

text \<open>\<open>namesPath fp res\<close>: the check passed, or it threw an \<^verbatim>\<open>Error\<close> whose message contains the full path \<open>fp\<close>.\<close>

definition namesPath :: "string \<Rightarrow> error option \<Rightarrow> bool" where
  "namesPath fp res = (case res of None \<Rightarrow> True | Some e \<Rightarrow> (case e of Error m \<Rightarrow> sublist fp m | _ \<Rightarrow> False))"

lemma namesPath_if:
  "namesPath fp a \<Longrightarrow> namesPath fp b \<Longrightarrow> namesPath fp (if c then a else b)"
  by simp

lemma namesPath_None: "namesPath fp None"
  by (simp add: namesPath_def)

lemma namesPath_invalidRoute: "namesPath fp (Some (invalidRoute fp w))"
proof -
  have "(''Invalid configuration of route '' @ [CHR 0x27] @ fp @ [CHR 0x27] @ w)
        = (''Invalid configuration of route '' @ [CHR 0x27]) @ fp @ ([CHR 0x27] @ w)" by simp
  then have "sublist fp (''Invalid configuration of route '' @ [CHR 0x27] @ fp @ [CHR 0x27] @ w)"
    by (metis sublist_appendI)
  then show ?thesis by (simp add: namesPath_def invalidRoute_def)
qed

lemma namesPath_pathMatchMessage: "namesPath fp (Some (Error (pathMatchMessage fp rd)))"
proof -
  have "\<exists>a b. pathMatchMessage fp rd = a @ fp @ b"
    unfolding pathMatchMessage_def
    by (rule exI[of _ "''Invalid configuration of route '' @ [CHR 0x27] @ ''{path: '' @ [CHR 0x22]"],
        rule exI) simp
  then have "sublist fp (pathMatchMessage fp rd)" by (metis sublist_appendI)
  then show ?thesis by (simp add: namesPath_def)
qed

lemma validateNodeChecks_names_path: "namesPath fp (validateNodeChecks r h fp)"
  unfolding validateNodeChecks_def
  by (intro namesPath_if namesPath_None namesPath_invalidRoute namesPath_pathMatchMessage)

lemma validateNodeChecks_esm_names_path: "namesPath fp (validateNodeChecks_esm r h fp)"
  unfolding validateNodeChecks_esm_def
  by (intro namesPath_if namesPath_None namesPath_invalidRoute namesPath_pathMatchMessage)

lemma if_Some_eq_None: "((if c then Some a else x) = None) = (\<not> c \<and> x = None)"
  by simp

lemma validateNodeChecks_None:
  "validateNodeChecks r h fp = None \<longleftrightarrow>
     \<not> (component r = None \<and> truthyStr (outlet r) \<and> outlet r \<noteq> Some PRIMARY_OUTLET)
     \<and> \<not> (truthyStr (redirectTo r) \<and> h)
     \<and> \<not> (truthyStr (redirectTo r) \<and> truthyLoad (loadChildren r))
     \<and> \<not> (h \<and> truthyLoad (loadChildren r))
     \<and> \<not> (truthyStr (redirectTo r) \<and> component r \<noteq> None)
     \<and> \<not> (truthyStr (path_r r) \<and> matcher r \<noteq> None)
     \<and> \<not> (redirectTo r = None \<and> component r = None \<and> \<not> h \<and> \<not> truthyLoad (loadChildren r))
     \<and> \<not> (path_r r = None \<and> matcher r = None)
     \<and> \<not> (case path_r r of Some (c # cs) \<Rightarrow> c = CHR ''/'' | _ \<Rightarrow> False)
     \<and> \<not> (path_r r = Some [] \<and> redirectTo r \<noteq> None \<and> pathMatch r = None)
     \<and> \<not> (pathMatch r \<noteq> None \<and> pathMatch r \<noteq> Some ''full'' \<and> pathMatch r \<noteq> Some ''prefix'')"
  unfolding validateNodeChecks_def
  by (simp only: if_Some_eq_None simp_thms)


lemma validateNodeChecks_esm_None:
  "validateNodeChecks_esm r h fp = None \<longleftrightarrow>
     \<not> (component r = None \<and> \<not> h \<and> \<not> truthyLoad (loadChildren r)
          \<and> truthyStr (outlet r) \<and> outlet r \<noteq> Some PRIMARY_OUTLET)
     \<and> \<not> (truthyStr (redirectTo r) \<and> h)
     \<and> \<not> (truthyStr (redirectTo r) \<and> truthyLoad (loadChildren r))
     \<and> \<not> (h \<and> truthyLoad (loadChildren r))
     \<and> \<not> (truthyStr (redirectTo r) \<and> component r \<noteq> None)
     \<and> \<not> (truthyStr (redirectTo r) \<and> canActivate r \<noteq> None)
     \<and> \<not> (truthyStr (path_r r) \<and> matcher r \<noteq> None)
     \<and> \<not> (redirectTo r = None \<and> component r = None \<and> \<not> h \<and> \<not> truthyLoad (loadChildren r))
     \<and> \<not> (path_r r = None \<and> matcher r = None)
     \<and> \<not> (case path_r r of Some (c # cs) \<Rightarrow> c = CHR ''/'' | _ \<Rightarrow> False)
     \<and> \<not> (path_r r = Some [] \<and> redirectTo r \<noteq> None \<and> pathMatch r = None)"
  unfolding validateNodeChecks_esm_def
  by (simp only: if_Some_eq_None simp_thms)

lemma namesPath_SomeD:
  "namesPath fp res \<Longrightarrow> res \<noteq> None \<Longrightarrow> \<exists>m. res = Some (Error m) \<and> sublist fp m"
  by (auto simp: namesPath_def split: option.splits error.splits)

text \<open>
  The checks that do not involve \<^verbatim>\<open>children\<close>, \<^verbatim>\<open>loadChildren\<close>,
  \<^verbatim>\<open>component\<close> or \<^verbatim>\<open>canActivate\<close>, as they read for a route whose
  \<^verbatim>\<open>redirectTo\<close> is set: no named outlet, a path or a matcher but not both, no leading
  slash, and a \<^verbatim>\<open>pathMatch\<close> when the path is empty.
\<close>

definition restValid :: "RouteFields \<Rightarrow> bool" where
  "restValid r =
     (\<not> (truthyStr (outlet r) \<and> outlet r \<noteq> Some PRIMARY_OUTLET)
      \<and> \<not> (truthyStr (path_r r) \<and> matcher r \<noteq> None)
      \<and> \<not> (path_r r = None \<and> matcher r = None)
      \<and> \<not> (case path_r r of Some (c # cs) \<Rightarrow> c = CHR ''/'' | _ \<Rightarrow> False)
      \<and> \<not> (path_r r = Some [] \<and> pathMatch r = None))"

text \<open>
  Claim C6, as amended. Let a route have a non-empty \<^verbatim>\<open>redirectTo\<close>. In
  \<^verbatim>\<open>router.js\<close>, \<^verbatim>\<open>validateNode\<close> throws an error whose message contains the route's
  full path when the route also has \<^verbatim>\<open>children\<close>, a (truthy) \<^verbatim>\<open>loadChildren\<close> or a
  \<^verbatim>\<open>component\<close>; \<^verbatim>\<open>canActivate\<close> is not looked at. A route with none of the three
  is accepted exactly when the remaining checks pass (\<open>restValid\<close>, and a \<^verbatim>\<open>pathMatch\<close>
  that is unset, \<^verbatim>\<open>full\<close> or \<^verbatim>\<open>prefix\<close>). In the later build
  (\<^verbatim>\<open>config.mjs\<close>) nothing is checked when \<^verbatim>\<open>ngDevMode\<close> is false; otherwise
  \<^verbatim>\<open>canActivate\<close> is a fourth field that \<^verbatim>\<open>redirectTo\<close> excludes, and a route with
  none of the four is accepted exactly when \<open>restValid\<close> holds.
\<close>

theorem C6_redirectTo_validation:
  assumes rd: "truthyStr (redirectTo r)"
  shows
    "(if cs \<noteq> None \<or> truthyLoad (loadChildren r) \<or> component r \<noteq> None
      then (\<exists>m. validateNode (Route r cs lc) fullPath = Inl (Error m) \<and> sublist fullPath m)
      else (validateNode (Route r cs lc) fullPath = Inr () \<longleftrightarrow>
              restValid r \<and> pathMatch r \<in> {None, Some ''full'', Some ''prefix''}))
     \<and>
     (if \<not> devMode ngDevMode then validateNode_esm ngDevMode (Route r None lc) fullPath = Inr ()
      else if cs \<noteq> None \<or> truthyLoad (loadChildren r) \<or> component r \<noteq> None \<or> canActivate r \<noteq> None
      then (\<exists>m. validateNode_esm ngDevMode (Route r cs lc) fullPath = Inl (Error m) \<and> sublist fullPath m)
      else (validateNode_esm ngDevMode (Route r cs lc) fullPath = Inr () \<longleftrightarrow> restValid r))"
proof -
  from rd have rdne: "redirectTo r \<noteq> None" by (auto simp: truthyStr_def split: option.splits)
  have A: "\<exists>m. validateNode (Route r cs lc) fullPath = Inl (Error m) \<and> sublist fullPath m"
    if h: "cs \<noteq> None \<or> truthyLoad (loadChildren r) \<or> component r \<noteq> None"
  proof -
    from h rd have "validateNodeChecks r (cs \<noteq> None) fullPath \<noteq> None"
      by (auto simp: validateNodeChecks_None)
    with validateNodeChecks_names_path[of fullPath r "cs \<noteq> None"]
    obtain m where "validateNodeChecks r (cs \<noteq> None) fullPath = Some (Error m)" "sublist fullPath m"
      by (blast dest: namesPath_SomeD)
    then show ?thesis by auto
  qed
  have B: "validateNode (Route r cs lc) fullPath = Inr () \<longleftrightarrow>
             restValid r \<and> pathMatch r \<in> {None, Some ''full'', Some ''prefix''}"
    if h: "\<not> (cs \<noteq> None \<or> truthyLoad (loadChildren r) \<or> component r \<noteq> None)"
  proof -
    from h have cs: "cs = None" by simp
    have "validateNode (Route r cs lc) fullPath = Inr () \<longleftrightarrow>
            validateNodeChecks r False fullPath = None"
      by (auto simp: cs split: option.splits)
    also have "\<dots> \<longleftrightarrow> restValid r \<and> pathMatch r \<in> {None, Some ''full'', Some ''prefix''}"
      using h rd rdne by (auto simp: validateNodeChecks_None restValid_def)
    finally show ?thesis .
  qed
  have C: "validateNode_esm ngDevMode (Route r None lc) fullPath = Inr ()" if "\<not> devMode ngDevMode"
    using that by simp
  have D: "\<exists>m. validateNode_esm ngDevMode (Route r cs lc) fullPath = Inl (Error m) \<and> sublist fullPath m"
    if d: "devMode ngDevMode"
      and h: "cs \<noteq> None \<or> truthyLoad (loadChildren r) \<or> component r \<noteq> None \<or> canActivate r \<noteq> None"
  proof -
    from h rd have "validateNodeChecks_esm r (cs \<noteq> None) fullPath \<noteq> None"
      by (auto simp: validateNodeChecks_esm_None)
    with validateNodeChecks_esm_names_path[of fullPath r "cs \<noteq> None"]
    obtain m where "validateNodeChecks_esm r (cs \<noteq> None) fullPath = Some (Error m)" "sublist fullPath m"
      by (blast dest: namesPath_SomeD)
    with d show ?thesis by auto
  qed
  have E: "validateNode_esm ngDevMode (Route r cs lc) fullPath = Inr () \<longleftrightarrow> restValid r"
    if d: "devMode ngDevMode"
      and h: "\<not> (cs \<noteq> None \<or> truthyLoad (loadChildren r) \<or> component r \<noteq> None \<or> canActivate r \<noteq> None)"
  proof -
    from h have cs: "cs = None" by simp
    have "validateNode_esm ngDevMode (Route r cs lc) fullPath = Inr () \<longleftrightarrow>
            validateNodeChecks_esm r False fullPath = None"
      using d by (auto simp: cs split: option.splits)
    also have "\<dots> \<longleftrightarrow> restValid r"
      using h rd rdne by (auto simp: validateNodeChecks_esm_None restValid_def)
    finally show ?thesis .
  qed
  have P1: "if cs \<noteq> None \<or> truthyLoad (loadChildren r) \<or> component r \<noteq> None
      then (\<exists>m. validateNode (Route r cs lc) fullPath = Inl (Error m) \<and> sublist fullPath m)
      else (validateNode (Route r cs lc) fullPath = Inr () \<longleftrightarrow>
              restValid r \<and> pathMatch r \<in> {None, Some ''full'', Some ''prefix''})"
  proof (cases "cs \<noteq> None \<or> truthyLoad (loadChildren r) \<or> component r \<noteq> None")
    case True
    from A[OF True] True show ?thesis by (simp only: if_True)
  next
    case False
    from B[OF False] False show ?thesis by (simp only: if_False)
  qed
  have P2: "if \<not> devMode ngDevMode then validateNode_esm ngDevMode (Route r None lc) fullPath = Inr ()
      else if cs \<noteq> None \<or> truthyLoad (loadChildren r) \<or> component r \<noteq> None \<or> canActivate r \<noteq> None
      then (\<exists>m. validateNode_esm ngDevMode (Route r cs lc) fullPath = Inl (Error m) \<and> sublist fullPath m)
      else (validateNode_esm ngDevMode (Route r cs lc) fullPath = Inr () \<longleftrightarrow> restValid r)"
  proof (cases "devMode ngDevMode")
    case False
    from C[OF False] False show ?thesis by (simp only: if_True not_False_eq_True)
  next
    case d: True
    show ?thesis
    proof (cases "cs \<noteq> None \<or> truthyLoad (loadChildren r) \<or> component r \<noteq> None \<or> canActivate r \<noteq> None")
      case True
      from D[OF d True] d True show ?thesis by (simp only: if_True if_False not_True_eq_False)
    next
      case False
      from E[OF d False] d False show ?thesis by (simp only: if_True if_False not_True_eq_False)
    qed
  qed
  from P1 P2 show ?thesis by (rule conjI)
qed

text \<open>The route \<^verbatim>\<open>{path: 'a', redirectTo: 'b'}\<close>.\<close>

definition redirectRoute :: RouteFields where
  "redirectRoute = \<lparr>path_r = Some ''a'', pathMatch = None, matcher = None, component = None,
     redirectTo = Some ''b'', outlet = None, canActivate = None, canActivateChild = None,
     canDeactivate = None, canLoad = None, loadChildren = None\<rparr>"

theorem C6_redirectTo_validation_witness:
  "truthyStr (redirectTo redirectRoute)
   \<and> (\<exists>m. validateNode (Route (redirectRoute\<lparr>component := Some 1\<rparr>) None None) ''a'' = Inl (Error m)
          \<and> sublist ''a'' m)
   \<and> validateNode (Route redirectRoute None None) ''a'' = Inr ()
   \<and> (\<exists>m. validateNode_esm None (Route (redirectRoute\<lparr>canActivate := Some [7]\<rparr>) None None) ''a''
            = Inl (Error m) \<and> sublist ''a'' m)"
proof -
  have rd: "truthyStr (redirectTo redirectRoute)"
    and rd': "truthyStr (redirectTo (redirectRoute\<lparr>component := Some 1\<rparr>))"
    and rd'': "truthyStr (redirectTo (redirectRoute\<lparr>canActivate := Some [7]\<rparr>))"
    by (simp_all add: redirectRoute_def truthyStr_def)
  from C6_redirectTo_validation[OF rd', of None None "''a''" None]
  have 1: "\<exists>m. validateNode (Route (redirectRoute\<lparr>component := Some 1\<rparr>) None None) ''a'' = Inl (Error m)
          \<and> sublist ''a'' m"
    by (simp add: redirectRoute_def)
  from C6_redirectTo_validation[OF rd, of None None "''a''" None]
  have 2: "validateNode (Route redirectRoute None None) ''a'' = Inr ()"
    by (simp add: redirectRoute_def restValid_def truthyStr_def truthyLoad_def)
  from C6_redirectTo_validation[OF rd'', of None None "''a''" None]
  have 3: "\<exists>m. validateNode_esm None (Route (redirectRoute\<lparr>canActivate := Some [7]\<rparr>) None None) ''a''
            = Inl (Error m) \<and> sublist ''a'' m"
    by (simp add: redirectRoute_def devMode_def)
  from rd 1 2 3 show ?thesis by blast
qed

text \<open>
  Claim C6 as stated fails on \<^verbatim>\<open>router.js\<close>: the route
  \<^verbatim>\<open>{path: 'a', redirectTo: 'b', canActivate: [g]}\<close> is accepted, and the route
  \<^verbatim>\<open>{path: 'a', redirectTo: 'b', outlet: 'x'}\<close>, which has \<^verbatim>\<open>redirectTo\<close> and none
  of the four fields, is rejected.
\<close>

theorem C6_counterexample:
  "validateConfig [Route (redirectRoute\<lparr>canActivate := Some [7]\<rparr>) None None] [] = Inr ()
   \<and> validateConfig [Route (redirectRoute\<lparr>outlet := Some ''x''\<rparr>) None None] []
       = Inl (invalidRoute ''a'' '': a componentless route cannot have a named outlet set'')"
  by (simp add: redirectRoute_def getFullPath_def truthyStr_def truthyLoad_def
                validateNodeChecks_def PRIMARY_OUTLET_def)

section \<open>Lazy loading behind \<^verbatim>\<open>canLoad\<close> (\<^verbatim>\<open>router.js\<close> lines 1519-1575 and 1687-1721)\<close>

text \<open>
  The collaborators are parameters. A guard is known by its injection token; what the model
  needs of it is the sequence of values its result delivers (\<^verbatim>\<open>true\<close>, \<^verbatim>\<open>false\<close>, a
  \<^verbatim>\<open>UrlTree\<close>, or anything else) (\<^verbatim>\<open>wrapIntoObservable\<close> turns
  a plain value or a promise into a stream of one value), or the error it throws. The loader
  (\<^verbatim>\<open>RouterConfigLoader.load\<close>) returns the loaded configuration, the routes and the module,
  or fails. A custom matcher returns the consumed segments and the positional parameters, or
  \<^verbatim>\<open>null\<close>. The world records which guards were called and what the loader was asked
  to load, in order.
\<close>

datatype guardValue = GTrue | GFalse | GUrlTree UrlTree | GOther









text \<open>\<^verbatim>\<open>String.prototype.split\<close> with a one-character separator.\<close>

fun jsSplit :: "char \<Rightarrow> string \<Rightarrow> string list" where
  "jsSplit sep [] = [[]]"
| "jsSplit sep (c # cs) =
     (if c = sep then [] # jsSplit sep cs
      else (case jsSplit sep cs of [] \<Rightarrow> [[c]] | p # ps \<Rightarrow> (c # p) # ps))"








subsection \<open>What the guards decide\<close>









section \<open>Running the guards\<close>

text \<open>
  An \<^verbatim>\<open>ActivatedRouteSnapshot\<close>, as far as the guard checks and the recognizer's outlet
  check read it. \<open>snapId\<close> is the identity of the object, \<open>parent_s\<close> the identity of its
  parent in the state tree (\<open>None\<close> for the root); \<open>url_s\<close> and \<open>outlet_s\<close> are
  \<^verbatim>\<open>url\<close> and \<^verbatim>\<open>outlet\<close>.
\<close>

record Snapshot =
  snapId :: nat
  url_s :: "UrlSegment list"
  outlet_s :: string
  routeConfig :: "RouteFields option"
  parent_s :: "nat option"

record CanActivate =
  path_c :: "Snapshot list"

record CanDeactivate =
  component_c :: "nat option"
  route_c :: Snapshot

datatype guardKind = CanDeactivateGuard | CanActivateChildGuard | CanActivateGuard

datatype Event =
    NavigationStart nat string
  | RoutesRecognized nat string string
  | NavigationEnd nat string string
  | NavigationCancel nat string string
  | NavigationError nat string error
  | ChildActivationStart nat
  | ActivationStart nat

text \<open>
  What happens during a check is recorded in order: \<open>RunGuard k token owner target\<close> is the call
  of the guard \<open>token\<close> of kind \<open>k\<close>, configured on the route of the snapshot \<open>owner\<close>, for the
  snapshot \<open>target\<close>; \<open>Emit e\<close> is an event handed to \<^verbatim>\<open>forwardEvent\<close>. The guards
  are taken to answer synchronously: \<open>guardResult\<close> is the value a guard returns, or the first
  value that the promise or observable it returns has ready when it is subscribed to (what
  \<^verbatim>\<open>first()\<close> lets through), or the error it throws. Answers that arrive later are
  outside the model.
\<close>

datatype Action = RunGuard guardKind nat nat nat | Emit Event

record GuardEnv =
  guardResult :: "guardKind \<Rightarrow> nat \<Rightarrow> nat \<Rightarrow> nat \<Rightarrow> error + guardValue"

subsection \<open>The later build: \<^verbatim>\<open>src/esm2020/src/operators/check_guards.mjs\<close>\<close>




definition guardsOf :: "(RouteFields \<Rightarrow> nat list option) \<Rightarrow> Snapshot \<Rightarrow> nat list" where
  "guardsOf field s =
     (case routeConfig s of
        None \<Rightarrow> []
      | Some r \<Rightarrow> (case field r of None \<Rightarrow> [] | Some gs \<Rightarrow> gs))"














subsection \<open>The order of the guard checks, as the specification states it\<close>







subsection \<open>The build agrees with the specification's order\<close>











subsection \<open>The older build: \<^verbatim>\<open>PreActivation\<close> of \<^verbatim>\<open>router.js\<close> (lines 4004-4282)\<close>

text \<open>
  \<^verbatim>\<open>this.checks\<close> is one list, in the order the traversal pushed the checks:
  \<^verbatim>\<open>traverseRoutes\<close> pushes a \<^verbatim>\<open>CanDeactivate\<close> and a \<^verbatim>\<open>CanActivate\<close> together
  for a reused route whose guards run again (line 4090). Every group of guards is an
  \<^verbatim>\<open>every(result => result === true)\<close> over the guards in order: in a run where the
  guards answer synchronously it answers \<^verbatim>\<open>false\<close> at the first value that is not
  \<^verbatim>\<open>true\<close>, and the guards after it are not called. No activation events exist in this
  build.
\<close>

datatype Check = CheckCanActivate CanActivate | CheckCanDeactivate CanDeactivate

fun everyGuard ::
  "GuardEnv \<Rightarrow> guardKind \<Rightarrow> nat \<Rightarrow> nat \<Rightarrow> nat list \<Rightarrow> Action list
     \<Rightarrow> (error + bool) \<times> Action list" where
  "everyGuard env k owner target [] tr = (Inr True, tr)"
| "everyGuard env k owner target (g # gs) tr =
     (case guardResult env k g owner target of
        Inl e \<Rightarrow> (Inl e, tr @ [RunGuard k g owner target])
      | Inr v \<Rightarrow>
          if v = GTrue then everyGuard env k owner target gs (tr @ [RunGuard k g owner target])
          else (Inr False, tr @ [RunGuard k g owner target]))"

definition PreActivation_runCanActivate ::
  "GuardEnv \<Rightarrow> Snapshot \<Rightarrow> Action list \<Rightarrow> (error + bool) \<times> Action list" where
  "PreActivation_runCanActivate env future tr =
     everyGuard env CanActivateGuard (snapId future) (snapId future) (guardsOf canActivate future) tr"

fun PreActivation_runAncestors ::
  "GuardEnv \<Rightarrow> nat \<Rightarrow> Snapshot list \<Rightarrow> Action list \<Rightarrow> (error + bool) \<times> Action list" where
  "PreActivation_runAncestors env target [] tr = (Inr True, tr)"
| "PreActivation_runAncestors env target (d # ds) tr =
     (case everyGuard env CanActivateChildGuard (snapId d) target (guardsOf canActivateChild d) tr of
        (Inl e, tr') \<Rightarrow> (Inl e, tr')
      | (Inr result, tr') \<Rightarrow>
          if result then PreActivation_runAncestors env target ds tr' else (Inr False, tr'))"

definition PreActivation_runCanActivateChild ::
  "GuardEnv \<Rightarrow> Snapshot list \<Rightarrow> Action list \<Rightarrow> (error + bool) \<times> Action list" where
  "PreActivation_runCanActivateChild env p tr =
     PreActivation_runAncestors env (snapId (last p))
       (filter (\<lambda>d. length (guardsOf canActivateChild d) > 0) (rev (butlast p))) tr"

definition PreActivation_runCanDeactivate ::
  "GuardEnv \<Rightarrow> CanDeactivate \<Rightarrow> Action list \<Rightarrow> (error + bool) \<times> Action list" where
  "PreActivation_runCanDeactivate env check tr =
     everyGuard env CanDeactivateGuard (snapId (route_c check)) (snapId (route_c check))
       (guardsOf canDeactivate (route_c check)) tr"

text \<open>
  One check. For a \<^verbatim>\<open>CanActivate\<close> the two streams are built before either is subscribed,
  and building the second reads \<^verbatim>\<open>s.route._routeConfig\<close>, a \<^verbatim>\<open>TypeError\<close> when the path
  is empty.
\<close>

definition PreActivation_runCheck ::
  "GuardEnv \<Rightarrow> Check \<Rightarrow> Action list \<Rightarrow> (error + bool) \<times> Action list" where
  "PreActivation_runCheck env s tr =
     (case s of
        CheckCanActivate c \<Rightarrow>
          if path_c c = [] then (Inl TypeError, tr)
          else
            (case PreActivation_runCanActivateChild env (path_c c) tr of
               (Inl e, tr') \<Rightarrow> (Inl e, tr')
             | (Inr result, tr') \<Rightarrow>
                 if result then PreActivation_runCanActivate env (last (path_c c)) tr'
                 else (Inr False, tr'))
      | CheckCanDeactivate c \<Rightarrow> PreActivation_runCanDeactivate env c tr)"

fun PreActivation_checkGuards ::
  "GuardEnv \<Rightarrow> Check list \<Rightarrow> Action list \<Rightarrow> (error + bool) \<times> Action list" where
  "PreActivation_checkGuards env [] tr = (Inr True, tr)"
| "PreActivation_checkGuards env (s # checks) tr =
     (case PreActivation_runCheck env s tr of
        (Inl e, tr') \<Rightarrow> (Inl e, tr')
      | (Inr result, tr') \<Rightarrow>
          if result then PreActivation_checkGuards env checks tr' else (Inr False, tr'))"

subsection \<open>Two reused sibling routes\<close>

text \<open>
  The snapshots of a state with two named outlets under the root: \<open>snapA\<close> (identity 1, outlet
  \<^verbatim>\<open>primary\<close>) and \<open>snapB\<close> (identity 2, outlet \<^verbatim>\<open>aux\<close>), both children of the root
  (identity 0), each with one \<^verbatim>\<open>canDeactivate\<close> guard (tokens 10 and 20) and one
  \<^verbatim>\<open>canActivate\<close> guard (tokens 11 and 21). All guards answer \<^verbatim>\<open>true\<close> in
  \<open>allowAll\<close>.
\<close>

definition guardedRoute :: "string \<Rightarrow> nat \<Rightarrow> nat \<Rightarrow> RouteFields" where
  "guardedRoute p cd ca = \<lparr>path_r = Some p, pathMatch = None, matcher = None, component = Some 1,
     redirectTo = None, outlet = None, canActivate = Some [ca], canActivateChild = None,
     canDeactivate = Some [cd], canLoad = None, loadChildren = None\<rparr>"

definition snapRoot :: Snapshot where
  "snapRoot = \<lparr>snapId = 0, url_s = [], outlet_s = ''primary'', routeConfig = None, parent_s = None\<rparr>"

definition snapA :: Snapshot where
  "snapA = \<lparr>snapId = 1, url_s = [UrlSegment ''a'' []], outlet_s = ''primary'',
             routeConfig = Some (guardedRoute ''a'' 10 11), parent_s = Some 0\<rparr>"






section \<open>The navigation scheduler (\<^verbatim>\<open>Router\<close>, \<^verbatim>\<open>router.js\<close> lines 3745-3980)\<close>

text \<open>
  The fields of the \<^verbatim>\<open>Router\<close> that a navigation reads and writes. \<open>currentRouterState\<close> is
  the identity of the current \<^verbatim>\<open>RouterState\<close>; \<open>routerEvents\<close> are the events pushed to
  \<^verbatim>\<open>routerEvents\<close> so far, \<open>locationCalls\<close> the calls made on the location, and
  \<open>navigations\<close> the requests pushed to the \<^verbatim>\<open>navigations\<close> subject (identifier, source,
  raw URL), which is how a navigation is scheduled.
\<close>

datatype LocationCall = Go string | ReplaceState string

record Router =
  navigationId :: nat
  currentUrlTree :: UrlTree
  rawUrlTree :: UrlTree
  currentRouterState :: nat
  navigated :: bool
  routerEvents :: "Event list"
  locationCalls :: "LocationCall list"
  navigations :: "(nat \<times> string \<times> UrlTree) list"

text \<open>How the promise of the navigation is settled: resolved with a boolean, resolved with what the error handler returned, or rejected.\<close>

datatype Settled = Resolved bool | ResolvedWith nat | Rejected error

text \<open>
  What the collaborators deliver during one navigation: the outcome of applying the redirects
  and recognizing the result (the URL tree after redirects and the identity of the recognized
  snapshot, or the error of either), the two hooks, the checks the traversal collects, the
  outcome of resolving the data, the identity of the router state built for the snapshot, the
  location's answer to \<^verbatim>\<open>isCurrentPathEqualTo\<close>, the outcome of activating the routes,
  the handling strategy's \<^verbatim>\<open>merge\<close> and the error handler.
\<close>

record Phases =
  recognized :: "error + (UrlTree \<times> nat)"
  beforePreactivation :: "error option"
  checks :: "Check list"
  resolveData :: "error option"
  afterPreactivation :: "error option"
  createRouterState :: nat
  isCurrentPathEqualTo :: "string \<Rightarrow> bool"
  activateRoutes :: "error option"
  urlMerge :: "UrlTree \<Rightarrow> UrlTree \<Rightarrow> UrlTree"
  errorHandler :: "error \<Rightarrow> error + nat"

text \<open>\<^verbatim>\<open>scheduleNavigation\<close> (lines 3745-3769): the only place that pushes to \<^verbatim>\<open>navigations\<close>.\<close>

definition scheduleNavigation :: "UrlTree \<Rightarrow> string \<Rightarrow> Router \<Rightarrow> Router" where
  "scheduleNavigation rawUrl source rt =
     (let lastNavigation = (if navigations rt = [] then None else Some (last (navigations rt))) in
      if (case lastNavigation of
            None \<Rightarrow> False
          | Some (lid, lsource, lrawUrl) \<Rightarrow>
              (source \<noteq> ''imperative'' \<and> lsource = ''imperative''
                 \<and> serialize lrawUrl = serialize rawUrl)
              \<or> (source = ''hashchange'' \<and> lsource = ''popstate''
                 \<and> serialize lrawUrl = serialize rawUrl))
      then rt
      else rt\<lparr>navigationId := navigationId rt + 1,
              navigations := navigations rt @ [(navigationId rt + 1, source, rawUrl)]\<rparr>)"

function showNat :: "nat \<Rightarrow> string" where
  "showNat n = (if n < 10 then [''0123456789'' ! n] else showNat (n div 10) @ [''0123456789'' ! (n mod 10)])"
  by pat_completeness auto
termination
  by (relation "measure id") auto

declare showNat.simps [simp del]

text \<open>
  The pipeline of \<^verbatim>\<open>runNavigate\<close> up to the body of \<^verbatim>\<open>forEach\<close>: the result is
  \<^verbatim>\<open>navigationIsSuccessful\<close>, or the error that ends the stream. The guards are taken to
  have their results at hand, so the navigation identifier cannot change while the pipeline
  runs, and the tests \<^verbatim>\<open>this.navigationId !== id\<close> inside the pipeline are never true.
\<close>

definition runPipeline ::
  "GuardEnv \<Rightarrow> Phases \<Rightarrow> UrlTree \<Rightarrow> UrlTree \<Rightarrow> bool \<Rightarrow> bool \<Rightarrow> nat \<Rightarrow> nat option \<Rightarrow> Router
     \<Rightarrow> Action list \<Rightarrow> (error + bool) \<times> Router \<times> Action list" where
  "runPipeline env ph url rawUrl shouldPreventPushState shouldReplaceUrl ident precreatedState rt tr =
     (case (case precreatedState of
              None \<Rightarrow>
                (case recognized ph of
                   Inl e \<Rightarrow> Inl e
                 | Inr (appliedUrl, snapshot) \<Rightarrow>
                     Inr (appliedUrl, snapshot,
                          rt\<lparr>routerEvents := routerEvents rt
                               @ [RoutesRecognized ident (serialize url) (serialize appliedUrl)]\<rparr>))
            | Some st \<Rightarrow> Inr (url, st, rt)) of
        Inl e \<Rightarrow> (Inl e, rt, tr)
      | Inr (appliedUrl, snapshot, rt1) \<Rightarrow>
     (case beforePreactivation ph of
        Some e \<Rightarrow> (Inl e, rt1, tr)
      | None \<Rightarrow>
     (case PreActivation_checkGuards env (checks ph) tr of
        (Inl e, tr1) \<Rightarrow> (Inl e, rt1, tr1)
      | (Inr shouldActivate, tr1) \<Rightarrow>
     (case (if shouldActivate then resolveData ph else None) of
        Some e \<Rightarrow> (Inl e, rt1, tr1)
      | None \<Rightarrow>
     (case afterPreactivation ph of
        Some e \<Rightarrow> (Inl e, rt1, tr1)
      | None \<Rightarrow>
          if \<not> shouldActivate then (Inr False, rt1, tr1)
          else
            (let rt2 = rt1\<lparr>currentUrlTree := appliedUrl,
                           rawUrlTree := urlMerge ph appliedUrl rawUrl,
                           currentRouterState := createRouterState ph\<rparr>;
                 p = serialize (rawUrlTree rt2);
                 rt3 = (if \<not> shouldPreventPushState
                        then (if isCurrentPathEqualTo ph p \<or> shouldReplaceUrl
                              then rt2\<lparr>locationCalls := locationCalls rt2 @ [ReplaceState p]\<rparr>
                              else rt2\<lparr>locationCalls := locationCalls rt2 @ [Go p]\<rparr>)
                        else rt2)
             in case activateRoutes ph of
                  Some e \<Rightarrow> (Inl e, rt3, tr1)
                | None \<Rightarrow> (Inr True, rt3, tr1)))))))"

definition runNavigate ::
  "GuardEnv \<Rightarrow> Phases \<Rightarrow> UrlTree \<Rightarrow> UrlTree \<Rightarrow> bool \<Rightarrow> bool \<Rightarrow> nat \<Rightarrow> nat option \<Rightarrow> Router
     \<Rightarrow> Action list \<Rightarrow> Settled \<times> Router \<times> Action list" where
  "runNavigate env ph url rawUrl shouldPreventPushState shouldReplaceUrl ident precreatedState rt tr =
     (if ident \<noteq> navigationId rt then
        (Resolved False,
         rt\<lparr>locationCalls := locationCalls rt @ [Go (serialize (currentUrlTree rt))],
            routerEvents := routerEvents rt
              @ [NavigationCancel ident (serialize url)
                   (''Navigation ID '' @ showNat ident @ '' is not equal to the current navigation id ''
                    @ showNat (navigationId rt))]\<rparr>,
         tr)
      else
        (let storedState = currentRouterState rt; storedUrl = currentUrlTree rt in
         case runPipeline env ph url rawUrl shouldPreventPushState shouldReplaceUrl ident
                precreatedState rt tr of
           (Inr navigationIsSuccessful, rt1, tr1) \<Rightarrow>
             if navigationIsSuccessful then
               (Resolved True,
                rt1\<lparr>navigated := True,
                    routerEvents := routerEvents rt1
                      @ [NavigationEnd ident (serialize url) (serialize (currentUrlTree rt1))]\<rparr>,
                tr1)
             else
               (Resolved False,
                rt1\<lparr>locationCalls := locationCalls rt1 @ [ReplaceState (serialize (rawUrlTree rt1))],
                    routerEvents := routerEvents rt1 @ [NavigationCancel ident (serialize url) []]\<rparr>,
                tr1)
         | (Inl e, rt1, tr1) \<Rightarrow>
             (let (settled, rt2) =
                    (case e of
                       NavigationCancelingError m \<Rightarrow>
                         (Resolved False,
                          rt1\<lparr>locationCalls := locationCalls rt1
                                 @ [ReplaceState (serialize (rawUrlTree rt1))],
                              navigated := True,
                              routerEvents := routerEvents rt1
                                 @ [NavigationCancel ident (serialize url) m]\<rparr>)
                     | _ \<Rightarrow>
                         ((case errorHandler ph e of Inr v \<Rightarrow> ResolvedWith v | Inl ee \<Rightarrow> Rejected ee),
                          rt1\<lparr>routerEvents := routerEvents rt1
                                 @ [NavigationError ident (serialize url) e]\<rparr>))
              in (settled,
                  rt2\<lparr>currentRouterState := storedState,
                      currentUrlTree := storedUrl,
                      rawUrlTree := urlMerge ph storedUrl rawUrl,
                      locationCalls := locationCalls rt2
                        @ [ReplaceState (serialize (urlMerge ph storedUrl rawUrl))]\<rparr>,
                  tr1))))"


subsection \<open>A guard result that is not \<^verbatim>\<open>true\<close>\<close>

text \<open>
  The guards a check stands for, in the order \<^verbatim>\<open>checkGuards\<close> reaches them: for a
  \<^verbatim>\<open>CanActivate\<close> check the \<^verbatim>\<open>canActivateChild\<close> guards of the ancestors, from the
  deepest up, and then the \<^verbatim>\<open>canActivate\<close> guards of the route; for a
  \<^verbatim>\<open>CanDeactivate\<close> check the \<^verbatim>\<open>canDeactivate\<close> guards of the route. A guard is named
  by its kind, its token, the snapshot whose route configures it and the snapshot it is asked
  about.
\<close>

type_synonym guardCall = "guardKind \<times> nat \<times> nat \<times> nat"

definition callsOfAncestors :: "nat \<Rightarrow> Snapshot list \<Rightarrow> guardCall list" where
  "callsOfAncestors target ds =
     concat (map (\<lambda>d. map (\<lambda>g. (CanActivateChildGuard, g, snapId d, target))
                             (guardsOf canActivateChild d)) ds)"

definition callsOfCheck :: "Check \<Rightarrow> guardCall list" where
  "callsOfCheck s =
     (case s of
        CheckCanActivate c \<Rightarrow>
          callsOfAncestors (snapId (last (path_c c))) (rev (butlast (path_c c)))
          @ map (\<lambda>g. (CanActivateGuard, g, snapId (last (path_c c)), snapId (last (path_c c))))
                (guardsOf canActivate (last (path_c c)))
      | CheckCanDeactivate c \<Rightarrow>
          map (\<lambda>g. (CanDeactivateGuard, g, snapId (route_c c), snapId (route_c c)))
              (guardsOf canDeactivate (route_c c)))"

definition callsOfChecks :: "Check list \<Rightarrow> guardCall list" where
  "callsOfChecks cs = concat (map callsOfCheck cs)"

definition answers :: "GuardEnv \<Rightarrow> guardCall \<Rightarrow> error + guardValue" where
  "answers env c = (case c of (k, g, owner, target) \<Rightarrow> guardResult env k g owner target)"

definition noGuardThrows :: "GuardEnv \<Rightarrow> guardCall list \<Rightarrow> bool" where
  "noGuardThrows env cs = list_all (\<lambda>c. case answers env c of Inl e \<Rightarrow> False | Inr v \<Rightarrow> True) cs"

definition allGuardsTrue :: "GuardEnv \<Rightarrow> guardCall list \<Rightarrow> bool" where
  "allGuardsTrue env cs = list_all (\<lambda>c. answers env c = Inr GTrue) cs"

text \<open>The traversal pushes \<^verbatim>\<open>CanActivate\<close> checks with a path that holds at least the root.\<close>

definition pathsGiven :: "Check list \<Rightarrow> bool" where
  "pathsGiven cs = list_all (\<lambda>s. case s of CheckCanActivate c \<Rightarrow> path_c c \<noteq> [] | CheckCanDeactivate c \<Rightarrow> True) cs"

lemma noGuardThrows_append:
  "noGuardThrows env (a @ b) = (noGuardThrows env a \<and> noGuardThrows env b)"
  by (simp add: noGuardThrows_def)

lemma allGuardsTrue_append:
  "allGuardsTrue env (a @ b) = (allGuardsTrue env a \<and> allGuardsTrue env b)"
  by (simp add: allGuardsTrue_def)

lemma everyGuard_value:
  "noGuardThrows env (map (\<lambda>g. (k, g, owner, target)) gs) \<Longrightarrow>
   \<exists>tr'. everyGuard env k owner target gs tr
          = (Inr (allGuardsTrue env (map (\<lambda>g. (k, g, owner, target)) gs)), tr')"
proof (induction gs arbitrary: tr)
  case Nil
  show ?case by (simp add: allGuardsTrue_def)
next
  case (Cons g gs)
  from Cons.prems obtain v where v: "guardResult env k g owner target = Inr v"
    and rest: "noGuardThrows env (map (\<lambda>g. (k, g, owner, target)) gs)"
    by (auto simp: noGuardThrows_def answers_def split: sum.splits)
  show ?case
  proof (cases "v = GTrue")
    case True
    from Cons.IH[OF rest, of "tr @ [RunGuard k g owner target]"] v True
    show ?thesis by (simp add: allGuardsTrue_def answers_def)
  next
    case False
    with v show ?thesis by (simp add: allGuardsTrue_def answers_def)
  qed
qed

lemma callsOfAncestors_Cons:
  "callsOfAncestors target (d # ds)
   = map (\<lambda>g. (CanActivateChildGuard, g, snapId d, target)) (guardsOf canActivateChild d)
     @ callsOfAncestors target ds"
  by (simp add: callsOfAncestors_def)

lemma callsOfAncestors_filter:
  "callsOfAncestors target (filter (\<lambda>d. length (guardsOf canActivateChild d) > 0) ds)
   = callsOfAncestors target ds"
  by (induction ds) (simp_all add: callsOfAncestors_def)

lemma runAncestors_value:
  "noGuardThrows env (callsOfAncestors target ds) \<Longrightarrow>
   \<exists>tr'. PreActivation_runAncestors env target ds tr
          = (Inr (allGuardsTrue env (callsOfAncestors target ds)), tr')"
proof (induction ds arbitrary: tr)
  case Nil
  show ?case by (simp add: allGuardsTrue_def callsOfAncestors_def)
next
  case (Cons d ds)
  let ?own = "map (\<lambda>g. (CanActivateChildGuard, g, snapId d, target)) (guardsOf canActivateChild d)"
  from Cons.prems have own: "noGuardThrows env ?own"
    and rest: "noGuardThrows env (callsOfAncestors target ds)"
    by (simp_all add: callsOfAncestors_Cons noGuardThrows_append)
  from everyGuard_value[OF own, of tr] obtain tr1 where
    e: "everyGuard env CanActivateChildGuard (snapId d) target (guardsOf canActivateChild d) tr
        = (Inr (allGuardsTrue env ?own), tr1)" by blast
  from Cons.IH[OF rest, of tr1] obtain tr2 where
    r: "PreActivation_runAncestors env target ds tr1
        = (Inr (allGuardsTrue env (callsOfAncestors target ds)), tr2)" by blast
  show ?case
    by (cases "allGuardsTrue env ?own")
       (simp_all add: e r callsOfAncestors_Cons allGuardsTrue_append)
qed

lemma runCheck_value:
  assumes "pathsGiven [s]" and "noGuardThrows env (callsOfCheck s)"
  shows "\<exists>tr'. PreActivation_runCheck env s tr = (Inr (allGuardsTrue env (callsOfCheck s)), tr')"
proof (cases s)
  case (CheckCanDeactivate c)
  with assms(2) everyGuard_value[of env CanDeactivateGuard "snapId (route_c c)" "snapId (route_c c)"
                                   "guardsOf canDeactivate (route_c c)" tr]
  show ?thesis
    by (simp add: PreActivation_runCheck_def PreActivation_runCanDeactivate_def callsOfCheck_def)
next
  case (CheckCanActivate c)
  let ?node = "last (path_c c)"
  let ?anc = "callsOfAncestors (snapId ?node) (rev (butlast (path_c c)))"
  let ?own = "map (\<lambda>g. (CanActivateGuard, g, snapId ?node, snapId ?node)) (guardsOf canActivate ?node)"
  from assms(1) CheckCanActivate have ne: "path_c c \<noteq> []" by (simp add: pathsGiven_def)
  from assms(2) CheckCanActivate have anc: "noGuardThrows env ?anc" and own: "noGuardThrows env ?own"
    by (simp_all add: callsOfCheck_def noGuardThrows_append)
  have filt: "callsOfAncestors (snapId ?node)
                (filter (\<lambda>d. length (guardsOf canActivateChild d) > 0) (rev (butlast (path_c c))))
              = ?anc"
    by (rule callsOfAncestors_filter)
  from runAncestors_value[of env "snapId ?node"
         "filter (\<lambda>d. length (guardsOf canActivateChild d) > 0) (rev (butlast (path_c c)))" tr]
       anc
  obtain tr1 where
    "PreActivation_runAncestors env (snapId ?node)
       (filter (\<lambda>d. length (guardsOf canActivateChild d) > 0) (rev (butlast (path_c c)))) tr
     = (Inr (allGuardsTrue env ?anc), tr1)"
    unfolding filt by blast
  then have
    a: "PreActivation_runCanActivateChild env (path_c c) tr = (Inr (allGuardsTrue env ?anc), tr1)"
    by (simp only: PreActivation_runCanActivateChild_def)
  from everyGuard_value[OF own, of tr1] obtain tr2 where
    o: "PreActivation_runCanActivate env ?node tr1 = (Inr (allGuardsTrue env ?own), tr2)"
    by (auto simp: PreActivation_runCanActivate_def)
  show ?thesis
    by (cases "allGuardsTrue env ?anc")
       (simp_all add: CheckCanActivate PreActivation_runCheck_def ne a o callsOfCheck_def
                      allGuardsTrue_append)
qed

lemma checkGuards_value:
  "pathsGiven cs \<Longrightarrow> noGuardThrows env (callsOfChecks cs) \<Longrightarrow>
   \<exists>tr'. PreActivation_checkGuards env cs tr = (Inr (allGuardsTrue env (callsOfChecks cs)), tr')"
proof (induction cs arbitrary: tr)
  case Nil
  show ?case by (simp add: allGuardsTrue_def callsOfChecks_def)
next
  case (Cons s cs)
  from Cons.prems have p1: "pathsGiven [s]" and p2: "pathsGiven cs"
    and n1: "noGuardThrows env (callsOfCheck s)" and n2: "noGuardThrows env (callsOfChecks cs)"
    by (simp_all add: pathsGiven_def callsOfChecks_def noGuardThrows_append)
  from runCheck_value[OF p1 n1, of tr] obtain tr1 where
    a: "PreActivation_runCheck env s tr = (Inr (allGuardsTrue env (callsOfCheck s)), tr1)" by blast
  from Cons.IH[OF p2 n2, of tr1] obtain tr2 where
    b: "PreActivation_checkGuards env cs tr1 = (Inr (allGuardsTrue env (callsOfChecks cs)), tr2)"
    by blast
  have c: "callsOfChecks (s # cs) = callsOfCheck s @ callsOfChecks cs"
    by (simp add: callsOfChecks_def)
  show ?case
    by (cases "allGuardsTrue env (callsOfCheck s)") (simp_all add: a b c allGuardsTrue_append)
qed

text \<open>
  Claim C2, as amended. Take a navigation in \<^verbatim>\<open>router.js\<close> whose recognition succeeds,
  whose two hooks complete, and none of whose guards throws. If one of the guards of its
  checks (\<^verbatim>\<open>canDeactivate\<close>, \<^verbatim>\<open>canActivateChild\<close> or \<^verbatim>\<open>canActivate\<close>) answers with
  a value that is not \<^verbatim>\<open>true\<close>, a \<^verbatim>\<open>UrlTree\<close> like any other, the navigation is
  cancelled: after \<^verbatim>\<open>RoutesRecognized\<close> the router emits \<^verbatim>\<open>NavigationCancel\<close> (with an
  empty reason), resets the location to the current URL and resolves the promise with
  \<^verbatim>\<open>false\<close>. Nothing else of the router changes: the current URL tree and state stay, the
  navigation identifier stays, and nothing is pushed to \<^verbatim>\<open>navigations\<close>, so no further
  navigation is scheduled.
\<close>

theorem C2_guard_not_true_cancels:
  assumes "navigationId rt = ident"
    and "recognized ph = Inr (appliedUrl, snapshot)"
    and "beforePreactivation ph = None"
    and "afterPreactivation ph = None"
    and "pathsGiven (checks ph)"
    and "noGuardThrows env (callsOfChecks (checks ph))"
    and "\<not> allGuardsTrue env (callsOfChecks (checks ph))"
  shows "fst (runNavigate env ph url rawUrl shouldPreventPushState shouldReplaceUrl ident None rt tr)
           = Resolved False
       \<and> fst (snd (runNavigate env ph url rawUrl shouldPreventPushState shouldReplaceUrl ident None
                      rt tr))
           = rt\<lparr>routerEvents := routerEvents rt
                     @ [RoutesRecognized ident (serialize url) (serialize appliedUrl),
                        NavigationCancel ident (serialize url) []],
                locationCalls := locationCalls rt @ [ReplaceState (serialize (rawUrlTree rt))]\<rparr>"
proof -
  from checkGuards_value[OF assms(5,6), of tr] assms(7) obtain tr' where
    "PreActivation_checkGuards env (checks ph) tr = (Inr False, tr')" by auto
  with assms(1-4) show ?thesis by (simp add: runNavigate_def runPipeline_def)
qed

text \<open>
  The scenario of the claim: the route \<^verbatim>\<open>/a\<close> has a \<^verbatim>\<open>canActivate\<close> guard (token 11)
  that returns the URL tree of \<^verbatim>\<open>/login\<close>. The router is at \<^verbatim>\<open>/\<close>, and the navigation
  to \<^verbatim>\<open>/a\<close> has been scheduled with identifier 1.
\<close>

definition treeOf :: "string list \<Rightarrow> UrlTree" where
  "treeOf ps = \<lparr>root = UrlSegmentGroup []
                  (if ps = [] then []
                   else [(''primary'', UrlSegmentGroup (map (\<lambda>p. UrlSegment p []) ps) [])]),
                queryParams = [], fragment = None\<rparr>"

definition redirectToLogin :: GuardEnv where
  "redirectToLogin =
     \<lparr>guardResult = (\<lambda>k g owner target. if g = 11 then Inr (GUrlTree (treeOf [''login''])) else Inr GTrue)\<rparr>"

definition routerAtRoot :: Router where
  "routerAtRoot = \<lparr>navigationId = 1, currentUrlTree = treeOf [], rawUrlTree = treeOf [],
     currentRouterState = 0, navigated = True, routerEvents = [NavigationStart 1 ''/a''],
     locationCalls = [], navigations = [(1, ''imperative'', treeOf [''a''])]\<rparr>"

definition toA :: Phases where
  "toA = \<lparr>recognized = Inr (treeOf [''a''], 1), beforePreactivation = None,
           checks = [CheckCanActivate \<lparr>path_c = [snapRoot, snapA]\<rparr>], resolveData = None,
           afterPreactivation = None, createRouterState = 1, isCurrentPathEqualTo = (\<lambda>p. False),
           activateRoutes = None, urlMerge = (\<lambda>newUrlPart wholeUrl. newUrlPart),
           errorHandler = (\<lambda>e. Inl e)\<rparr>"

lemma toA_checkGuards:
  "PreActivation_checkGuards redirectToLogin (checks toA) []
     = (Inr False, [RunGuard CanActivateGuard 11 1 1])"
  by (simp add: toA_def redirectToLogin_def PreActivation_runCheck_def
                PreActivation_runCanActivate_def PreActivation_runCanActivateChild_def
                snapA_def snapRoot_def guardedRoute_def guardsOf_def)

theorem C2_guard_not_true_cancels_witness:
  "navigationId routerAtRoot = 1
   \<and> recognized toA = Inr (treeOf [''a''], 1)
   \<and> beforePreactivation toA = None \<and> afterPreactivation toA = None
   \<and> pathsGiven (checks toA)
   \<and> callsOfChecks (checks toA) = [(CanActivateGuard, 11, 1, 1)]
   \<and> noGuardThrows redirectToLogin (callsOfChecks (checks toA))
   \<and> \<not> allGuardsTrue redirectToLogin (callsOfChecks (checks toA))
   \<and> fst (runNavigate redirectToLogin toA (treeOf [''a'']) (treeOf [''a'']) False False 1 None
            routerAtRoot [])
       = Resolved False
   \<and> fst (snd (runNavigate redirectToLogin toA (treeOf [''a'']) (treeOf [''a'']) False False 1 None
                 routerAtRoot []))
       = routerAtRoot\<lparr>routerEvents := [NavigationStart 1 ''/a'', RoutesRecognized 1 ''/a'' ''/a'',
                                       NavigationCancel 1 ''/a'' []],
                      locationCalls := [ReplaceState ''/'']\<rparr>"
proof -
  have a: "navigationId routerAtRoot = 1" by (simp add: routerAtRoot_def)
  have b: "recognized toA = Inr (treeOf [''a''], 1)" by (simp add: toA_def)
  have c: "beforePreactivation toA = None" and d: "afterPreactivation toA = None"
    by (simp_all add: toA_def)
  have e: "pathsGiven (checks toA)" by (simp add: toA_def pathsGiven_def)
  have calls: "callsOfChecks (checks toA) = [(CanActivateGuard, 11, 1, 1)]"
    by (simp add: toA_def callsOfChecks_def callsOfCheck_def callsOfAncestors_def snapA_def
                  snapRoot_def guardedRoute_def guardsOf_def)
  have f: "noGuardThrows redirectToLogin (callsOfChecks (checks toA))"
    by (simp add: calls noGuardThrows_def answers_def redirectToLogin_def)
  have g: "\<not> allGuardsTrue redirectToLogin (callsOfChecks (checks toA))"
    by (simp add: calls allGuardsTrue_def answers_def redirectToLogin_def)
  have sa: "serialize (treeOf [''a'']) = ''/a''" and sr: "serialize (treeOf []) = ''/''"
    by code_simp+
  have rr: "rawUrlTree routerAtRoot = treeOf []"
    "routerEvents routerAtRoot = [NavigationStart 1 ''/a'']" "locationCalls routerAtRoot = []"
    by (simp_all add: routerAtRoot_def)
  from C2_guard_not_true_cancels[OF a b c d e f g,
         of "treeOf [''a'']" "treeOf [''a'']" False False "[]"]
  have "fst (runNavigate redirectToLogin toA (treeOf [''a'']) (treeOf [''a'']) False False 1 None
            routerAtRoot [])
       = Resolved False
   \<and> fst (snd (runNavigate redirectToLogin toA (treeOf [''a'']) (treeOf [''a'']) False False 1 None
                 routerAtRoot []))
       = routerAtRoot\<lparr>routerEvents := [NavigationStart 1 ''/a'', RoutesRecognized 1 ''/a'' ''/a'',
                                       NavigationCancel 1 ''/a'' []],
                      locationCalls := [ReplaceState ''/'']\<rparr>"
    by (simp add: sa sr rr)
  with a b c d e calls f g show ?thesis by (intro conjI) simp_all
qed

text \<open>
  Claim C2 as stated fails on \<^verbatim>\<open>router.js\<close>: in the scenario the navigation ends in
  \<^verbatim>\<open>NavigationCancel\<close> and the promise resolves to \<^verbatim>\<open>false\<close>, but no second
  navigation follows. The \<^verbatim>\<open>navigations\<close> subject holds the one request it held before,
  the identifier is still 1, the current URL tree is still that of \<^verbatim>\<open>/\<close> and not that of
  \<^verbatim>\<open>/login\<close>, and the last event is the \<^verbatim>\<open>NavigationCancel\<close>.
\<close>

theorem C2_counterexample:
  "(case runNavigate redirectToLogin toA (treeOf [''a'']) (treeOf [''a'']) False False 1 None
           routerAtRoot [] of
      (settled, rt', tr') \<Rightarrow>
        settled = Resolved False
        \<and> navigations rt' = [(1, ''imperative'', treeOf [''a''])]
        \<and> navigationId rt' = 1
        \<and> currentUrlTree rt' = treeOf []
        \<and> serialize (currentUrlTree rt') \<noteq> ''/login''
        \<and> last (routerEvents rt') = NavigationCancel 1 ''/a'' [])"
proof -
  have sa: "serialize (treeOf [''a'']) = ''/a''" and sr: "serialize (treeOf []) = ''/''"
    by code_simp+
  have f: "recognized toA = Inr (treeOf [''a''], 1)" "beforePreactivation toA = None"
    "afterPreactivation toA = None" "resolveData toA = None"
    by (simp_all add: toA_def)
  have r: "navigationId routerAtRoot = 1" "rawUrlTree routerAtRoot = treeOf []"
    "currentUrlTree routerAtRoot = treeOf []"
    "navigations routerAtRoot = [(1, ''imperative'', treeOf [''a''])]"
    by (simp_all add: routerAtRoot_def)
  have "runNavigate redirectToLogin toA (treeOf [''a'']) (treeOf [''a'']) False False 1 None
           routerAtRoot []
        = (Resolved False,
           routerAtRoot\<lparr>locationCalls := locationCalls routerAtRoot @ [ReplaceState ''/''],
                        routerEvents := (routerEvents routerAtRoot @ [RoutesRecognized 1 ''/a'' ''/a''])
                                        @ [NavigationCancel 1 ''/a'' []]\<rparr>,
           [RunGuard CanActivateGuard 11 1 1])"
    by (simp add: runNavigate_def runPipeline_def toA_checkGuards f r sa sr)
  then show ?thesis by (simp add: r sr)
qed


section \<open>The recognizer's outlet check (\<^verbatim>\<open>router.js\<close> lines 2993-2998, 3071-3134)\<close>

datatype 'a TreeNode = TreeNode (value_t: 'a) (children_t: "'a TreeNode list")

definition sameOutletMessage :: "Snapshot \<Rightarrow> Snapshot \<Rightarrow> string" where
  "sameOutletMessage routeWithSameOutletName n =
     ''Two segments cannot have the same outlet name: '' @ [CHR 0x27]
     @ join ''/'' (map serializePath (url_s routeWithSameOutletName)) @ [CHR 0x27] @ '' and ''
     @ [CHR 0x27] @ join ''/'' (map serializePath (url_s n)) @ [CHR 0x27] @ ''.''"

text \<open>
  The loop of \<^verbatim>\<open>checkOutletNameUniqueness\<close>, with the object \<^verbatim>\<open>names\<close> as its state.
  \<^verbatim>\<open>names\<close> starts as \<^verbatim>\<open>{}\<close>, an object that inherits from
  \<^verbatim>\<open>Object.prototype\<close>: for an outlet named like one of the properties there,
  \<^verbatim>\<open>names[n.value.outlet]\<close> is the inherited function (or, for \<^verbatim>\<open>__proto__\<close>, the
  prototype itself) when \<^verbatim>\<open>names\<close> has no entry of its own. That value is truthy and has
  no \<^verbatim>\<open>url\<close>, so \<^verbatim>\<open>routeWithSameOutletName.url.map\<close> is a \<^verbatim>\<open>TypeError\<close>.
\<close>

definition objectPrototypeKeys :: "string list" where
  "objectPrototypeKeys =
     [''constructor'', ''hasOwnProperty'', ''isPrototypeOf'', ''propertyIsEnumerable'',
      ''toLocaleString'', ''toString'', ''valueOf'', ''__proto__'', ''__defineGetter__'',
      ''__defineSetter__'', ''__lookupGetter__'', ''__lookupSetter__'']"

fun checkNames :: "(string \<times> Snapshot) list \<Rightarrow> Snapshot TreeNode list \<Rightarrow> error + unit" where
  "checkNames names [] = Inr ()"
| "checkNames names (n # nodes) =
     (case map_of names (outlet_s (value_t n)) of
        Some routeWithSameOutletName \<Rightarrow>
          Inl (Error (sameOutletMessage routeWithSameOutletName (value_t n)))
      | None \<Rightarrow>
          if outlet_s (value_t n) \<in> set objectPrototypeKeys then Inl TypeError
          else checkNames (objSet (outlet_s (value_t n)) (value_t n) names) nodes)"

definition checkOutletNameUniqueness :: "Snapshot TreeNode list \<Rightarrow> error + unit" where
  "checkOutletNameUniqueness nodes = checkNames [] nodes"

text \<open>
  \<^verbatim>\<open>sortActivatedRouteSnapshots\<close>: the comparator puts the primary outlet first and orders
  the others by \<^verbatim>\<open>localeCompare\<close>, which depends on the locale and is a parameter. The
  sort itself is an insertion sort; on nodes with distinct outlets the comparator is a strict
  order and every sort gives the same list.
\<close>

definition compareNodes ::
  "(string \<Rightarrow> string \<Rightarrow> int) \<Rightarrow> Snapshot TreeNode \<Rightarrow> Snapshot TreeNode \<Rightarrow> int" where
  "compareNodes localeCompare a b =
     (if outlet_s (value_t a) = PRIMARY_OUTLET then -1
      else if outlet_s (value_t b) = PRIMARY_OUTLET then 1
      else localeCompare (outlet_s (value_t a)) (outlet_s (value_t b)))"

fun insertNode ::
  "(string \<Rightarrow> string \<Rightarrow> int) \<Rightarrow> Snapshot TreeNode \<Rightarrow> Snapshot TreeNode list
     \<Rightarrow> Snapshot TreeNode list" where
  "insertNode localeCompare a [] = [a]"
| "insertNode localeCompare a (b # bs) =
     (if compareNodes localeCompare a b \<le> 0 then a # b # bs
      else b # insertNode localeCompare a bs)"

definition sortActivatedRouteSnapshots ::
  "(string \<Rightarrow> string \<Rightarrow> int) \<Rightarrow> Snapshot TreeNode list \<Rightarrow> Snapshot TreeNode list" where
  "sortActivatedRouteSnapshots localeCompare nodes = foldr (insertNode localeCompare) nodes []"

text \<open>
  \<^verbatim>\<open>processChildren\<close>. The recognition of one child group
  (\<^verbatim>\<open>processSegmentGroup\<close>) is the parameter \<open>processSegmentGroup'\<close>; the children are
  visited in the order of \<^verbatim>\<open>mapChildrenIntoArray\<close>, and the first error ends the visit.
\<close>

fun collectNodes ::
  "(UrlSegmentGroup \<Rightarrow> string \<Rightarrow> error + Snapshot TreeNode list)
     \<Rightarrow> (string \<times> UrlSegmentGroup) list \<Rightarrow> error + Snapshot TreeNode list" where
  "collectNodes processSegmentGroup' [] = Inr []"
| "collectNodes processSegmentGroup' ((childOutlet, child) # cs) =
     (case processSegmentGroup' child childOutlet of
        Inl e \<Rightarrow> Inl e
      | Inr ns \<Rightarrow>
          (case collectNodes processSegmentGroup' cs of
             Inl e \<Rightarrow> Inl e
           | Inr ms \<Rightarrow> Inr (ns @ ms)))"

definition processChildren ::
  "(UrlSegmentGroup \<Rightarrow> string \<Rightarrow> error + Snapshot TreeNode list) \<Rightarrow> (string \<Rightarrow> string \<Rightarrow> int)
     \<Rightarrow> UrlSegmentGroup \<Rightarrow> error + Snapshot TreeNode list" where
  "processChildren processSegmentGroup' localeCompare segmentGroup =
     (case collectNodes processSegmentGroup'
             (filter (\<lambda>(k, v). k = PRIMARY_OUTLET) (children segmentGroup)
              @ filter (\<lambda>(k, v). k \<noteq> PRIMARY_OUTLET) (children segmentGroup)) of
        Inl e \<Rightarrow> Inl e
      | Inr nodes \<Rightarrow>
          (case checkOutletNameUniqueness nodes of
             Inl e \<Rightarrow> Inl e
           | Inr u \<Rightarrow> Inr (sortActivatedRouteSnapshots localeCompare nodes)))"

lemma objSet_keys: "fst ` set (objSet k v m) = insert k (fst ` set m)"
  by (simp add: objSet_def dom_update)

lemma map_of_objSet: "map_of (objSet k v m) = (map_of m)(k \<mapsto> v)"
  by (simp add: objSet_def update_conv')

definition ordinaryOutlets :: "Snapshot TreeNode list \<Rightarrow> bool" where
  "ordinaryOutlets nodes = list_all (\<lambda>n. outlet_s (value_t n) \<notin> set objectPrototypeKeys) nodes"

lemma checkNames_ok:
  "distinct (map (\<lambda>n. outlet_s (value_t n)) nodes) \<Longrightarrow>
   list_all (\<lambda>n. outlet_s (value_t n) \<notin> fst ` set names) nodes \<Longrightarrow>
   ordinaryOutlets nodes \<Longrightarrow>
   checkNames names nodes = Inr ()"
proof (induction nodes arbitrary: names)
  case Nil
  show ?case by simp
next
  case (Cons n nodes)
  from Cons.prems have fresh: "map_of names (outlet_s (value_t n)) = None"
    by (simp add: map_of_eq_None_iff)
  from Cons.prems(3) have ord: "outlet_s (value_t n) \<notin> set objectPrototypeKeys"
    and rest: "ordinaryOutlets nodes"
    by (simp_all add: ordinaryOutlets_def)
  have "list_all (\<lambda>m. outlet_s (value_t m) \<notin> fst ` set (objSet (outlet_s (value_t n)) (value_t n) names)) nodes"
    using Cons.prems(1,2) by (auto simp: objSet_keys list_all_iff image_iff)
  with Cons.IH[of "objSet (outlet_s (value_t n)) (value_t n) names"] Cons.prems(1) fresh ord rest
  show ?case by simp
qed

lemma checkNames_dup_in_names:
  "list_ex (\<lambda>n. outlet_s (value_t n) \<in> fst ` set names) nodes \<Longrightarrow>
   ordinaryOutlets nodes \<Longrightarrow>
   \<exists>m. checkNames names nodes = Inl (Error m)
       \<and> prefix ''Two segments cannot have the same outlet name: '' m"
proof (induction nodes arbitrary: names)
  case Nil
  then show ?case by simp
next
  case (Cons n nodes)
  from Cons.prems(2) have ord: "outlet_s (value_t n) \<notin> set objectPrototypeKeys"
    and rest: "ordinaryOutlets nodes"
    by (simp_all add: ordinaryOutlets_def)
  show ?case
  proof (cases "map_of names (outlet_s (value_t n))")
    case (Some r)
    then show ?thesis by (simp add: sameOutletMessage_def)
  next
    case None
    then have notin: "outlet_s (value_t n) \<notin> fst ` set names" by (simp add: map_of_eq_None_iff)
    with Cons.prems(1) have "list_ex (\<lambda>m. outlet_s (value_t m) \<in> fst ` set names) nodes" by simp
    then have "list_ex (\<lambda>m. outlet_s (value_t m)
                 \<in> fst ` set (objSet (outlet_s (value_t n)) (value_t n) names)) nodes"
      by (auto simp: list_ex_iff objSet_keys)
    from Cons.IH[OF this rest] None ord show ?thesis by simp
  qed
qed

lemma checkNames_dup:
  "\<not> distinct (map (\<lambda>n. outlet_s (value_t n)) nodes) \<Longrightarrow>
   ordinaryOutlets nodes \<Longrightarrow>
   \<exists>m. checkNames names nodes = Inl (Error m)
       \<and> prefix ''Two segments cannot have the same outlet name: '' m"
proof (induction nodes arbitrary: names)
  case Nil
  then show ?case by simp
next
  case (Cons n nodes)
  from Cons.prems(2) have ord: "outlet_s (value_t n) \<notin> set objectPrototypeKeys"
    and rest: "ordinaryOutlets nodes"
    by (simp_all add: ordinaryOutlets_def)
  show ?case
  proof (cases "map_of names (outlet_s (value_t n))")
    case (Some r)
    then show ?thesis by (simp add: sameOutletMessage_def)
  next
    case None
    show ?thesis
    proof (cases "outlet_s (value_t n) \<in> set (map (\<lambda>n. outlet_s (value_t n)) nodes)")
      case True
      then have "list_ex (\<lambda>m. outlet_s (value_t m)
                 \<in> fst ` set (objSet (outlet_s (value_t n)) (value_t n) names)) nodes"
        by (auto simp: list_ex_iff objSet_keys)
      from checkNames_dup_in_names[OF this rest] None ord show ?thesis by simp
    next
      case False
      with Cons.prems(1) have "\<not> distinct (map (\<lambda>n. outlet_s (value_t n)) nodes)" by simp
      from Cons.IH[OF this rest] None ord show ?thesis by simp
    qed
  qed
qed

text \<open>
  For outlet names that are not properties of \<^verbatim>\<open>Object.prototype\<close> the check does what
  its name says. Let \<open>nodes\<close> be the snapshots recognized for the children of a segment group.
  If two of them have the same outlet name, \<^verbatim>\<open>processChildren\<close> throws the error
  \<^verbatim>\<open>Two segments cannot have the same outlet name: ...\<close>; if the outlet names are
  distinct, it returns the nodes, sorted.
\<close>

lemma processChildren_ordinary_outlets:
  assumes "collectNodes processSegmentGroup'
           (filter (\<lambda>(k, v). k = PRIMARY_OUTLET) (children segmentGroup)
            @ filter (\<lambda>(k, v). k \<noteq> PRIMARY_OUTLET) (children segmentGroup)) = Inr nodes"
    and "ordinaryOutlets nodes"
  shows "if distinct (map (\<lambda>n. outlet_s (value_t n)) nodes)
         then processChildren processSegmentGroup' localeCompare segmentGroup
                = Inr (sortActivatedRouteSnapshots localeCompare nodes)
         else (\<exists>m. processChildren processSegmentGroup' localeCompare segmentGroup = Inl (Error m)
                  \<and> prefix ''Two segments cannot have the same outlet name: '' m)"
proof (cases "distinct (map (\<lambda>n. outlet_s (value_t n)) nodes)")
  case True
  then have "checkOutletNameUniqueness nodes = Inr ()"
    unfolding checkOutletNameUniqueness_def
    by (rule checkNames_ok) (simp_all add: list_all_iff assms(2))
  with assms(1) True show ?thesis by (simp add: processChildren_def)
next
  case False
  from checkNames_dup[OF False assms(2), of "[]"] obtain m where
    m: "checkOutletNameUniqueness nodes = Inl (Error m)"
    and pre: "prefix ''Two segments cannot have the same outlet name: '' m"
    unfolding checkOutletNameUniqueness_def by blast
  from m assms(1) have "processChildren processSegmentGroup' localeCompare segmentGroup = Inl (Error m)"
    by (simp add: processChildren_def)
  with pre have "\<exists>m. processChildren processSegmentGroup' localeCompare segmentGroup = Inl (Error m)
                  \<and> prefix ''Two segments cannot have the same outlet name: '' m"
    by (intro exI[of _ m] conjI)
  with False show ?thesis by (simp only: if_False)
qed

text \<open>
  A recognition that fails with an error other than a \<^verbatim>\<open>NavigationCancelingError\<close> ends
  in a \<^verbatim>\<open>NavigationError\<close> event with that error, and the current URL tree and state stay.
\<close>

lemma runNavigate_recognition_error:
  assumes "navigationId rt = ident"
    and "recognized ph = Inl e"
    and "\<forall>m. e \<noteq> NavigationCancelingError m"
  shows "routerEvents (fst (snd (runNavigate env ph url rawUrl shouldPreventPushState
                                   shouldReplaceUrl ident None rt tr)))
           = routerEvents rt @ [NavigationError ident (serialize url) e]
       \<and> currentUrlTree (fst (snd (runNavigate env ph url rawUrl shouldPreventPushState
                                   shouldReplaceUrl ident None rt tr))) = currentUrlTree rt
       \<and> currentRouterState (fst (snd (runNavigate env ph url rawUrl shouldPreventPushState
                                   shouldReplaceUrl ident None rt tr))) = currentRouterState rt"
  using assms by (cases e) (simp_all add: runNavigate_def runPipeline_def Let_def)

subsection \<open>An outlet named \<^verbatim>\<open>constructor\<close>\<close>

text \<open>
  The URL \<^verbatim>\<open>/(constructor:x)\<close> with the configuration
  \<^verbatim>\<open>[{path: 'x', outlet: 'constructor', component: C}]\<close>. The parser gives the root one
  child, under the key \<^verbatim>\<open>constructor\<close>; the route matches it, and what is recognized for
  the children of the root is one node, of the outlet \<^verbatim>\<open>constructor\<close>.
\<close>

definition constructorNode :: "Snapshot TreeNode" where
  "constructorNode =
     TreeNode \<lparr>snapId = 1, url_s = [UrlSegment ''x'' []], outlet_s = ''constructor'',
               routeConfig = None, parent_s = Some 0\<rparr> []"

definition recognizeX :: "UrlSegmentGroup \<Rightarrow> string \<Rightarrow> error + Snapshot TreeNode list" where
  "recognizeX child childOutlet =
     (if childOutlet = ''constructor'' \<and> segments child = [UrlSegment ''x'' []]
      then Inr [constructorNode] else Inl NoMatch)"

text \<open>
  Claim C9 (sibling snapshots with distinct outlet names are accepted, two with the same name
  raise the uniqueness error). The one node of the outlet \<^verbatim>\<open>constructor\<close> has no sibling,
  so the outlet names are distinct, and yet \<^verbatim>\<open>checkOutletNameUniqueness\<close> throws, a
  \<^verbatim>\<open>TypeError\<close>: \<^verbatim>\<open>names[n.value.outlet]\<close> finds \<^verbatim>\<open>Object.prototype.constructor\<close>
  and takes it for an earlier route. \<^verbatim>\<open>processChildren\<close> on the root of the parsed URL
  fails with it. The same node under the name \<^verbatim>\<open>aux\<close> is accepted.
\<close>

theorem C9_inherited_outlet_name_divergence:
  "distinct (map (\<lambda>n. outlet_s (value_t n)) [constructorNode])
   \<and> checkOutletNameUniqueness [constructorNode] = Inl TypeError
   \<and> (case parse ''/(constructor:x)'' of
         Inl e \<Rightarrow> False
       | Inr t \<Rightarrow> processChildren recognizeX (\<lambda>a b. 0) (root t) = Inl TypeError)
   \<and> checkOutletNameUniqueness
         [TreeNode ((value_t constructorNode)\<lparr>outlet_s := ''aux''\<rparr>) []] = Inr ()"
  by code_simp

section \<open>Segment groups as objects (\<^verbatim>\<open>router.js\<close> lines 703-730)\<close>

text \<open>
  A \<^verbatim>\<open>UrlSegmentGroup\<close> has a \<^verbatim>\<open>parent\<close> field, which its constructor writes into
  the groups passed as children, and \<^verbatim>\<open>createUrlTree\<close> compares groups by identity and
  follows \<^verbatim>\<open>parent\<close>. For these the groups live in a store: a reference is an index into
  the list of all groups constructed so far, and a new group goes to the end of the list. The
  children object of a group is kept as a value in the group's record; the code never changes
  a children object that two groups hold.
\<close>

type_synonym ref = nat

record GroupObj =
  segments_o :: "UrlSegment list"
  children_o :: "(string \<times> ref) list"
  parent :: "ref option"

type_synonym heap = "GroupObj list"

definition setParent :: "ref \<Rightarrow> ref \<Rightarrow> heap \<Rightarrow> heap" where
  "setParent this v h = h[v := (h ! v)\<lparr>parent := Some this\<rparr>]"

text \<open>
  \<^verbatim>\<open>new UrlSegmentGroup(segments, children)\<close>: the fields are set, \<^verbatim>\<open>parent\<close> to
  \<^verbatim>\<open>null\<close>, and then \<^verbatim>\<open>forEach(children, (v, k) => v.parent = this)\<close>.
\<close>

definition newGroup :: "UrlSegment list \<Rightarrow> (string \<times> ref) list \<Rightarrow> heap \<Rightarrow> ref \<times> heap" where
  "newGroup segs chs h =
     (let this = length h
      in (this, fold (\<lambda>kv. setParent this (snd kv)) chs
                  (h @ [\<lparr>segments_o = segs, children_o = chs, parent = None\<rparr>])))"

record UrlTreeObj =
  root_t :: ref
  queryParams_t :: "(string \<times> QueryValue) list"
  fragment_t :: "string option"

text \<open>
  The tree of values below a reference, which is what the serializer reads. The first
  argument bounds the depth; \<open>None\<close> when it is exceeded or a reference is dangling.
\<close>

fun toGroup :: "nat \<Rightarrow> heap \<Rightarrow> ref \<Rightarrow> UrlSegmentGroup option" where
  "toGroup 0 h r = None"
| "toGroup (Suc n) h r =
     (if r < length h
      then map_option (UrlSegmentGroup (segments_o (h ! r)))
             (those (map (\<lambda>kv. map_option (Pair (fst kv)) (toGroup n h (snd kv)))
                         (children_o (h ! r))))
      else None)"

definition toUrlTree :: "heap \<Rightarrow> UrlTreeObj \<Rightarrow> UrlTree option" where
  "toUrlTree h t =
     map_option (\<lambda>g. \<lparr>root = g, queryParams = queryParams_t t, fragment = fragment_t t\<rparr>)
       (toGroup (length h) h (root_t t))"

section \<open>\<^verbatim>\<open>createUrlTree\<close> (\<^verbatim>\<open>router.js\<close> lines 2555-2912)\<close>

text \<open>
  A command is a string, an object of matrix parameters, \<^verbatim>\<open>{segmentPath: s}\<close> or
  \<^verbatim>\<open>{outlets: {...}}\<close>, where the value of an outlet is \<^verbatim>\<open>null\<close>, a string or an
  array of commands. Parameter values are strings. Commands of other types (numbers, for
  one) are outside the model, and every element of a commands array is an object of its own.
\<close>

datatype Command =
    Str string
  | Params "(string \<times> string) list"
  | SegmentPath string
  | Outlets "(string \<times> OutletValue) list"
and OutletValue =
    Null
  | PathString string
  | Commands "Command list"

text \<open>\<^verbatim>\<open>typeof command === 'object' && command != null && !command.outlets && !command.segmentPath\<close>\<close>

definition isMatrixParams :: "Command \<Rightarrow> bool" where
  "isMatrixParams command =
     (case command of
        Str s \<Rightarrow> False
      | Params ps \<Rightarrow> True
      | SegmentPath s \<Rightarrow> s = []
      | Outlets os \<Rightarrow> False)"

definition isObject :: "Command \<Rightarrow> bool" where
  "isObject command = (case command of Str s \<Rightarrow> False | _ \<Rightarrow> True)"

definition isOutlets :: "Command \<Rightarrow> bool" where
  "isOutlets command = (case command of Outlets os \<Rightarrow> True | _ \<Rightarrow> False)"

text \<open>The object a command is, as a map of parameters.\<close>

definition paramsOf :: "Command \<Rightarrow> (string \<times> string) list" where
  "paramsOf command =
     (case command of
        Params ps \<Rightarrow> ps
      | SegmentPath s \<Rightarrow> [(''segmentPath'', s)]
      | _ \<Rightarrow> [])"

text \<open>\<^verbatim>\<open>`${command}`\<close>\<close>

definition toStr :: "Command \<Rightarrow> string" where
  "toStr command = (case command of Str s \<Rightarrow> s | _ \<Rightarrow> ''[object Object]'')"

text \<open>
  An outlet's value used as an array of commands: a string is indexed and sliced like an
  array of its characters.
\<close>

definition commandsOf :: "OutletValue \<Rightarrow> Command list" where
  "commandsOf v =
     (case v of
        Null \<Rightarrow> []
      | PathString s \<Rightarrow> map (\<lambda>c. Str [c]) s
      | Commands cs \<Rightarrow> cs)"

record Navigation =
  isAbsolute :: bool
  numberOfDoubleDots :: nat
  commands :: "Command list"

definition newNavigation :: "bool \<Rightarrow> nat \<Rightarrow> Command list \<Rightarrow> error + Navigation" where
  "newNavigation isAbs dots cmds =
     (if isAbs \<and> length cmds > 0 \<and> isMatrixParams (hd cmds)
      then Inl (Error ''Root segment cannot have matrix parameters'')
      else
        (let i = length (takeWhile (\<lambda>c. \<not> isOutlets c) cmds)
         in if i < length cmds \<and> i \<noteq> length cmds - 1
            then Inl (Error ''{outlets:{}} has to be the last command'')
            else Inr \<lparr>isAbsolute = isAbs, numberOfDoubleDots = dots, commands = cmds\<rparr>))"

definition toRoot :: "Navigation \<Rightarrow> bool" where
  "toRoot nav = (isAbsolute nav \<and> length (commands nav) = 1 \<and> toStr (hd (commands nav)) = ''/'')"

text \<open>
  The parts of the first command, when it is a string (lines 2667-2679); the state is
  \<^verbatim>\<open>isAbsolute\<close>, \<^verbatim>\<open>numberOfDoubleDots\<close> and \<^verbatim>\<open>res\<close>.
\<close>

fun splitParts :: "nat \<Rightarrow> string list \<Rightarrow> bool \<times> nat \<times> Command list \<Rightarrow> bool \<times> nat \<times> Command list"
where
  "splitParts partIndex [] st = st"
| "splitParts partIndex (urlPart # rest) (isAbs, dots, res) =
     splitParts (partIndex + 1) rest
       (if partIndex = 0 \<and> urlPart = ''.'' then (isAbs, dots, res)
        else if partIndex = 0 \<and> urlPart = [] then (True, dots, res)
        else if urlPart = ''..'' then (isAbs, dots + 1, res)
        else if urlPart \<noteq> [] then (isAbs, dots, res @ [Str urlPart])
        else (isAbs, dots, res))"

text \<open>One step of the \<^verbatim>\<open>reduce\<close> of \<^verbatim>\<open>computeNavigation\<close> (lines 2650-2683).\<close>

definition reduceCommand ::
  "nat \<Rightarrow> Command \<Rightarrow> bool \<times> nat \<times> Command list \<Rightarrow> bool \<times> nat \<times> Command list" where
  "reduceCommand cmdIdx cmd st =
     (case st of (isAbs, dots, res) \<Rightarrow>
        (case cmd of
           Outlets os \<Rightarrow>
             (isAbs, dots,
              res @ [Outlets (fold (\<lambda>kv outlets.
                        objSet (fst kv)
                          (case snd kv of
                             PathString s \<Rightarrow> Commands (map Str (jsSplit CHR ''/'' s))
                           | v \<Rightarrow> v) outlets) os [])])
         | SegmentPath s \<Rightarrow> (isAbs, dots, res @ [if s \<noteq> [] then Str s else cmd])
         | Params ps \<Rightarrow> (isAbs, dots, res @ [cmd])
         | Str s \<Rightarrow>
             (if cmdIdx = 0 then splitParts 0 (jsSplit CHR ''/'' s) st
              else (isAbs, dots, res @ [cmd]))))"

fun reduceCommands ::
  "nat \<Rightarrow> Command list \<Rightarrow> bool \<times> nat \<times> Command list \<Rightarrow> bool \<times> nat \<times> Command list" where
  "reduceCommands cmdIdx [] st = st"
| "reduceCommands cmdIdx (cmd # rest) st = reduceCommands (cmdIdx + 1) rest (reduceCommand cmdIdx cmd st)"

definition computeNavigation :: "Command list \<Rightarrow> error + Navigation" where
  "computeNavigation cmds =
     (if cmds = [Str ''/''] then newNavigation True 0 cmds
      else (case reduceCommands 0 cmds (False, 0, []) of
              (isAbs, dots, res) \<Rightarrow> newNavigation isAbs dots res))"

record Position =
  segmentGroup_p :: ref
  processChildren_p :: bool
  index_p :: nat

record RouteSnapshot =
  urlSegment :: ref
  lastPathIndex :: int

definition invalidDoubleDots :: error where
  "invalidDoubleDots = Error (''Invalid number of '' @ [CHR 0x27] @ ''../'' @ [CHR 0x27])"

text \<open>
  The loop of \<^verbatim>\<open>createPositionApplyingDoubleDots\<close> (lines 2721-2734) follows
  \<^verbatim>\<open>parent\<close>; the first argument is fuel, one unit for every group visited.
\<close>

fun createPositionApplyingDoubleDots :: "nat \<Rightarrow> heap \<Rightarrow> ref \<Rightarrow> int \<Rightarrow> int \<Rightarrow> error + Position" where
  "createPositionApplyingDoubleDots 0 h g ci dd = Inl OutOfFuel"
| "createPositionApplyingDoubleDots (Suc n) h g ci dd =
     (if dd > ci then
        (case parent (h ! g) of
           None \<Rightarrow> Inl invalidDoubleDots
         | Some p \<Rightarrow>
             createPositionApplyingDoubleDots n h p (int (length (segments_o (h ! p)))) (dd - ci))
      else Inr \<lparr>segmentGroup_p = g, processChildren_p = False, index_p = nat (ci - dd)\<rparr>)"

definition findStartingPosition ::
  "Navigation \<Rightarrow> UrlTreeObj \<Rightarrow> RouteSnapshot \<Rightarrow> heap \<Rightarrow> error + Position" where
  "findStartingPosition nav tree route h =
     (if isAbsolute nav
      then Inr \<lparr>segmentGroup_p = root_t tree, processChildren_p = True, index_p = 0\<rparr>
      else if lastPathIndex route = - 1
      then Inr \<lparr>segmentGroup_p = urlSegment route, processChildren_p = True, index_p = 0\<rparr>
      else
        (let modifier = (if commands nav \<noteq> [] \<and> isMatrixParams (hd (commands nav)) then 0 else 1);
             index = lastPathIndex route + modifier
         in createPositionApplyingDoubleDots (Suc (length h)) h (urlSegment route) index
              (int (numberOfDoubleDots nav))))"

datatype PathValue = PUndefined | PNull | PStr string | PArr "Command list"

definition getPath :: "Command \<Rightarrow> PathValue" where
  "getPath command =
     (case command of
        Outlets os \<Rightarrow>
          (case map_of os PRIMARY_OUTLET of
             None \<Rightarrow> PUndefined
           | Some Null \<Rightarrow> PNull
           | Some (PathString s) \<Rightarrow> PStr s
           | Some (Commands cs) \<Rightarrow> PArr cs)
      | _ \<Rightarrow> PStr (toStr command))"

definition getOutlets :: "Command list \<Rightarrow> (string \<times> OutletValue) list" where
  "getOutlets cmds =
     (case cmds of
        Outlets os # rest \<Rightarrow> os
      | _ \<Rightarrow> [(PRIMARY_OUTLET, Commands cmds)])"

definition shallowEqual :: "(string \<times> string) list \<Rightarrow> (string \<times> string) list \<Rightarrow> bool" where
  "shallowEqual a b = (length a = length b \<and> list_all (\<lambda>kv. map_of b (fst kv) = Some (snd kv)) a)"

text \<open>
  \<^verbatim>\<open>path == segment.path && shallowEqual(params, segment.parameters)\<close>; an array is
  compared with a string through its \<^verbatim>\<open>toString\<close>.
\<close>

definition compare :: "PathValue \<Rightarrow> (string \<times> string) list \<Rightarrow> UrlSegment \<Rightarrow> bool" where
  "compare p params segment =
     ((case p of
         PStr s \<Rightarrow> s = path segment
       | PArr cs \<Rightarrow> join '','' (map toStr cs) = path segment
       | _ \<Rightarrow> False)
      \<and> shallowEqual params (parameters segment))"

definition truthyPath :: "PathValue \<Rightarrow> bool" where
  "truthyPath p = (case p of PStr s \<Rightarrow> s \<noteq> [] | PArr cs \<Rightarrow> True | _ \<Rightarrow> False)"

record Match =
  match_m :: bool
  pathIndex :: nat
  commandIndex :: nat

definition noMatch :: Match where
  "noMatch = \<lparr>match_m = False, pathIndex = 0, commandIndex = 0\<rparr>"

text \<open>The loop of \<^verbatim>\<open>prefixedWith\<close> (lines 2826-2846).\<close>

function prefixedLoop :: "UrlSegment list \<Rightarrow> Command list \<Rightarrow> nat \<Rightarrow> nat \<Rightarrow> Match" where
  "prefixedLoop segs cmds currentPathIndex currentCommandIndex =
     (if currentPathIndex < length segs then
        (if currentCommandIndex \<ge> length cmds then noMatch
         else
           (let seg = segs ! currentPathIndex;
                curr = getPath (cmds ! currentCommandIndex);
                next = (if currentCommandIndex < length cmds - 1
                        then Some (cmds ! (currentCommandIndex + 1)) else None)
            in if currentPathIndex > 0 \<and> curr = PUndefined
               then \<lparr>match_m = True, pathIndex = currentPathIndex,
                     commandIndex = currentCommandIndex\<rparr>
               else if truthyPath curr \<and> next \<noteq> None \<and> isObject (the next)
                       \<and> \<not> isOutlets (the next)
               then (if \<not> compare curr (paramsOf (the next)) seg then noMatch
                     else prefixedLoop segs cmds (currentPathIndex + 1) (currentCommandIndex + 2))
               else (if \<not> compare curr [] seg then noMatch
                     else prefixedLoop segs cmds (currentPathIndex + 1) (currentCommandIndex + 1))))
      else \<lparr>match_m = True, pathIndex = currentPathIndex, commandIndex = currentCommandIndex\<rparr>)"
  by pat_completeness auto
termination
  by (relation "measure (\<lambda>(segs, cmds, i, j). length segs - i)") auto

declare prefixedLoop.simps [simp del]

definition prefixedWith :: "UrlSegment list \<Rightarrow> nat \<Rightarrow> Command list \<Rightarrow> Match" where
  "prefixedWith segs startIndex cmds = prefixedLoop segs cmds startIndex 0"

text \<open>
  \<^verbatim>\<open>forEach\<close> over an object with a callback that may store a group under the key in the
  children object being built.
\<close>

fun buildChildren ::
  "('v \<Rightarrow> string \<Rightarrow> heap \<Rightarrow> error + (ref option \<times> heap)) \<Rightarrow> (string \<times> 'v) list
     \<Rightarrow> (string \<times> ref) list \<Rightarrow> heap \<Rightarrow> error + ((string \<times> ref) list \<times> heap)" where
  "buildChildren f [] acc h = Inr (acc, h)"
| "buildChildren f (kv # rest) acc h =
     (case f (snd kv) (fst kv) h of
        Inl e \<Rightarrow> Inl e
      | Inr (None, h') \<Rightarrow> buildChildren f rest acc h'
      | Inr (Some g, h') \<Rightarrow> buildChildren f rest (objSet (fst kv) g acc) h')"

text \<open>
  The loop of \<^verbatim>\<open>createNewSegmentGroup\<close> (lines 2857-2879) on the commands from index
  \<^verbatim>\<open>i\<close> on; \<open>first\<close> is \<^verbatim>\<open>i === 0\<close>.
\<close>

fun createNewLoop ::
  "((string \<times> OutletValue) list \<Rightarrow> heap \<Rightarrow> error + ((string \<times> ref) list \<times> heap))
     \<Rightarrow> UrlSegment list \<Rightarrow> nat \<Rightarrow> bool \<Rightarrow> Command list \<Rightarrow> UrlSegment list \<Rightarrow> heap
     \<Rightarrow> error + (ref \<times> heap)" where
  "createNewLoop createNewSegmentChildren' segs startIndex first [] paths h =
     Inr (newGroup paths [] h)"
| "createNewLoop createNewSegmentChildren' segs startIndex first (c # rest) paths h =
     (case c of
        Outlets os \<Rightarrow>
          (case createNewSegmentChildren' os h of
             Inl e \<Rightarrow> Inl e
           | Inr (chs, h') \<Rightarrow> Inr (newGroup paths chs h'))
      | _ \<Rightarrow>
          (if first \<and> isMatrixParams c then
             (if startIndex < length segs
              then createNewLoop createNewSegmentChildren' segs startIndex False rest
                     (paths @ [UrlSegment (path (segs ! startIndex)) (paramsOf c)]) h
              else Inl TypeError)
           else
             (case rest of
                [] \<Rightarrow>
                  createNewLoop createNewSegmentChildren' segs startIndex False rest
                    (paths @ [UrlSegment (toStr c) []]) h
              | next # rest' \<Rightarrow>
                  (if toStr c \<noteq> [] \<and> isMatrixParams next
                   then createNewLoop createNewSegmentChildren' segs startIndex False rest'
                          (paths @ [UrlSegment (toStr c) (paramsOf next)]) h
                   else createNewLoop createNewSegmentChildren' segs startIndex False rest
                          (paths @ [UrlSegment (toStr c) []]) h))))"

text \<open>
  \<^verbatim>\<open>createNewSegmentGroup\<close> and \<^verbatim>\<open>createNewSegmentChildren\<close> (lines 2854-2894) call each
  other along the nesting of the commands; the first argument is fuel.
\<close>

fun createNewSegmentGroup ::
    "nat \<Rightarrow> ref \<Rightarrow> nat \<Rightarrow> Command list \<Rightarrow> heap \<Rightarrow> error + (ref \<times> heap)"
  and createNewSegmentChildren ::
    "nat \<Rightarrow> (string \<times> OutletValue) list \<Rightarrow> heap \<Rightarrow> error + ((string \<times> ref) list \<times> heap)"
where
  "createNewSegmentGroup 0 segmentGroup startIndex cmds h = Inl OutOfFuel"
| "createNewSegmentGroup (Suc n) segmentGroup startIndex cmds h =
     createNewLoop (\<lambda>os h'. createNewSegmentChildren n os h')
       (segments_o (h ! segmentGroup)) startIndex True cmds
       (take startIndex (segments_o (h ! segmentGroup))) h"
| "createNewSegmentChildren 0 outlets h = Inl OutOfFuel"
| "createNewSegmentChildren (Suc n) outlets h =
     buildChildren
       (\<lambda>cmds outlet h'.
          if cmds = Null then Inr (None, h')
          else (case newGroup [] [] h' of
                  (g, h1) \<Rightarrow>
                    (case createNewSegmentGroup n g 0 (commandsOf cmds) h1 of
                       Inl e \<Rightarrow> Inl e
                     | Inr (r, h2) \<Rightarrow> Inr (Some r, h2))))
       outlets [] h"

text \<open>
  The bodies of \<^verbatim>\<open>updateSegmentGroup\<close> (lines 2762-2789) and
  \<^verbatim>\<open>updateSegmentGroupChildren\<close> (lines 2796-2815), each given the other.
\<close>

definition updateSegmentGroupBody ::
  "nat \<Rightarrow> (ref \<Rightarrow> nat \<Rightarrow> Command list \<Rightarrow> heap \<Rightarrow> error + (ref \<times> heap))
     \<Rightarrow> ref option \<Rightarrow> nat \<Rightarrow> Command list \<Rightarrow> heap \<Rightarrow> error + (ref \<times> heap)" where
  "updateSegmentGroupBody fuel updateSegmentGroupChildren' segmentGroup startIndex cmds h =
     (case (case segmentGroup of None \<Rightarrow> newGroup [] [] h | Some g \<Rightarrow> (g, h)) of
        (sg, h0) \<Rightarrow>
          (let segs = segments_o (h0 ! sg) in
           if length segs = 0 \<and> length (children_o (h0 ! sg)) > 0
           then updateSegmentGroupChildren' sg startIndex cmds h0
           else
             (let m = prefixedWith segs startIndex cmds;
                  slicedCommands = drop (commandIndex m) cmds
              in if match_m m \<and> pathIndex m < length segs then
                   (case newGroup (take (pathIndex m) segs) [] h0 of
                      (g, h1) \<Rightarrow>
                        (case newGroup (drop (pathIndex m) segs) (children_o (h1 ! sg)) h1 of
                           (c, h2) \<Rightarrow>
                             updateSegmentGroupChildren' g 0 slicedCommands
                               (h2[g := (h2 ! g)\<lparr>children_o :=
                                      objSet PRIMARY_OUTLET c (children_o (h2 ! g))\<rparr>])))
                 else if match_m m \<and> length slicedCommands = 0
                 then Inr (newGroup segs [] h0)
                 else if match_m m \<and> \<not> length (children_o (h0 ! sg)) > 0
                 then createNewSegmentGroup fuel sg startIndex cmds h0
                 else if match_m m
                 then updateSegmentGroupChildren' sg 0 slicedCommands h0
                 else createNewSegmentGroup fuel sg startIndex cmds h0)))"

definition updateSegmentGroupChildrenBody ::
  "(ref option \<Rightarrow> nat \<Rightarrow> Command list \<Rightarrow> heap \<Rightarrow> error + (ref \<times> heap))
     \<Rightarrow> ref \<Rightarrow> nat \<Rightarrow> Command list \<Rightarrow> heap \<Rightarrow> error + (ref \<times> heap)" where
  "updateSegmentGroupChildrenBody updateSegmentGroup' segmentGroup startIndex cmds h =
     (if length cmds = 0 then Inr (newGroup (segments_o (h ! segmentGroup)) [] h)
      else
        (let outlets = getOutlets cmds in
         case buildChildren
                (\<lambda>cmds' outlet h'.
                   if cmds' = Null then Inr (None, h')
                   else (case updateSegmentGroup' (map_of (children_o (h' ! segmentGroup)) outlet)
                                startIndex (commandsOf cmds') h' of
                           Inl e \<Rightarrow> Inl e
                         | Inr (r, h2) \<Rightarrow> Inr (Some r, h2)))
                outlets [] h of
           Inl e \<Rightarrow> Inl e
         | Inr (children1, h1) \<Rightarrow>
             Inr (newGroup (segments_o (h1 ! segmentGroup))
                    (fold (\<lambda>kv acc. if map_of outlets (fst kv) = None
                                     then objSet (fst kv) (snd kv) acc else acc)
                          (children_o (h1 ! segmentGroup)) children1)
                    h1)))"

fun updateSegmentGroup ::
    "nat \<Rightarrow> ref option \<Rightarrow> nat \<Rightarrow> Command list \<Rightarrow> heap \<Rightarrow> error + (ref \<times> heap)"
  and updateSegmentGroupChildren ::
    "nat \<Rightarrow> ref \<Rightarrow> nat \<Rightarrow> Command list \<Rightarrow> heap \<Rightarrow> error + (ref \<times> heap)"
where
  "updateSegmentGroup 0 segmentGroup startIndex cmds h = Inl OutOfFuel"
| "updateSegmentGroup (Suc n) segmentGroup startIndex cmds h =
     updateSegmentGroupBody n (\<lambda>g i c h'. updateSegmentGroupChildren n g i c h')
       segmentGroup startIndex cmds h"
| "updateSegmentGroupChildren 0 segmentGroup startIndex cmds h = Inl OutOfFuel"
| "updateSegmentGroupChildren (Suc n) segmentGroup startIndex cmds h =
     updateSegmentGroupChildrenBody (\<lambda>g i c h'. updateSegmentGroup n g i c h')
       segmentGroup startIndex cmds h"

text \<open>\<^verbatim>\<open>replaceSegment\<close> (lines 2602-2613); the first argument is fuel.\<close>

fun replaceSegment :: "nat \<Rightarrow> ref \<Rightarrow> ref \<Rightarrow> ref \<Rightarrow> heap \<Rightarrow> error + (ref \<times> heap)" where
  "replaceSegment 0 current oldSegment newSegment h = Inl OutOfFuel"
| "replaceSegment (Suc n) current oldSegment newSegment h =
     (case buildChildren
             (\<lambda>c outletName h'.
                if c = oldSegment then Inr (Some newSegment, h')
                else (case replaceSegment n c oldSegment newSegment h' of
                        Inl e \<Rightarrow> Inl e
                      | Inr (r, h2) \<Rightarrow> Inr (Some r, h2)))
             (children_o (h ! current)) [] h of
        Inl e \<Rightarrow> Inl e
      | Inr (chs, h1) \<Rightarrow> Inr (newGroup (segments_o (h1 ! current)) chs h1))"

text \<open>\<^verbatim>\<open>tree\<close> (lines 2584-2595).\<close>

definition tree ::
  "nat \<Rightarrow> ref \<Rightarrow> ref \<Rightarrow> UrlTreeObj \<Rightarrow> (string \<times> QueryValue) list option \<Rightarrow> string option \<Rightarrow> heap
     \<Rightarrow> error + (UrlTreeObj \<times> heap)" where
  "tree fuel oldSegmentGroup newSegmentGroup urlTree qps frag h =
     (let qp = (case qps of
                  None \<Rightarrow> []
                | Some q \<Rightarrow> fold (\<lambda>kv acc. objSet (fst kv) (snd kv) acc) q [])
      in if root_t urlTree = oldSegmentGroup
         then Inr (\<lparr>root_t = newSegmentGroup, queryParams_t = qp, fragment_t = frag\<rparr>, h)
         else (case replaceSegment fuel (root_t urlTree) oldSegmentGroup newSegmentGroup h of
                 Inl e \<Rightarrow> Inl e
               | Inr (r, h') \<Rightarrow> Inr (\<lparr>root_t = r, queryParams_t = qp, fragment_t = frag\<rparr>, h')))"

text \<open>
  The recursion of \<^verbatim>\<open>createUrlTree\<close> goes down the tree and down the nesting of the
  commands; the fuel handed to it here covers both.
\<close>

fun nesting :: "Command \<Rightarrow> nat" and nestingValue :: "OutletValue \<Rightarrow> nat" where
  "nesting (Str s) = 0"
| "nesting (Params ps) = 0"
| "nesting (SegmentPath s) = 0"
| "nesting (Outlets os) = Suc (fold max (map (\<lambda>kv. nestingValue (snd kv)) os) 0)"
| "nestingValue Null = 0"
| "nestingValue (PathString s) = 0"
| "nestingValue (Commands cs) = fold max (map nesting cs) 0"

definition createUrlTreeFuel :: "heap \<Rightarrow> Command list \<Rightarrow> nat" where
  "createUrlTreeFuel h cmds = 2 * (length h + 2) * (fold max (map nesting cmds) 0 + 2)"

definition createUrlTree ::
  "RouteSnapshot \<Rightarrow> UrlTreeObj \<Rightarrow> Command list \<Rightarrow> (string \<times> QueryValue) list option
     \<Rightarrow> string option \<Rightarrow> heap \<Rightarrow> error + (UrlTreeObj \<times> heap)" where
  "createUrlTree route urlTree cmds qps frag h =
     (let fuel = createUrlTreeFuel h cmds in
      if length cmds = 0 then tree fuel (root_t urlTree) (root_t urlTree) urlTree qps frag h
      else
        (case computeNavigation cmds of
           Inl e \<Rightarrow> Inl e
         | Inr nav \<Rightarrow>
             (if toRoot nav
              then (case newGroup [] [] h of
                      (g, h1) \<Rightarrow> tree fuel (root_t urlTree) g urlTree qps frag h1)
              else
                (case findStartingPosition nav urlTree route h of
                   Inl e \<Rightarrow> Inl e
                 | Inr startingPosition \<Rightarrow>
                     (case (if processChildren_p startingPosition
                            then updateSegmentGroupChildren fuel (segmentGroup_p startingPosition)
                                   (index_p startingPosition) (commands nav) h
                            else updateSegmentGroup fuel (Some (segmentGroup_p startingPosition))
                                   (index_p startingPosition) (commands nav) h) of
                        Inl e \<Rightarrow> Inl e
                      | Inr (segmentGroup, h1) \<Rightarrow>
                          tree fuel (segmentGroup_p startingPosition) segmentGroup urlTree
                            qps frag h1)))))"

text \<open>The URL a call of \<^verbatim>\<open>createUrlTree\<close> leads to, or its error.\<close>

definition createdUrl ::
  "RouteSnapshot \<Rightarrow> UrlTreeObj \<Rightarrow> Command list \<Rightarrow> heap \<Rightarrow> error + string option" where
  "createdUrl route urlTree cmds h =
     (case createUrlTree route urlTree cmds None None h of
        Inl e \<Rightarrow> Inl e
      | Inr (t, h') \<Rightarrow> Inr (map_option serialize (toUrlTree h' t)))"

text \<open>
  The chain of parents above a group, and with it the number of segments
  \<^verbatim>\<open>createPositionApplyingDoubleDots\<close> can walk up: those below the index in the group
  itself and all segments of the groups above it.
\<close>

fun parentChain :: "nat \<Rightarrow> heap \<Rightarrow> ref \<Rightarrow> ref list option" where
  "parentChain 0 h g = None"
| "parentChain (Suc n) h g =
     (case parent (h ! g) of
        None \<Rightarrow> Some []
      | Some p \<Rightarrow> map_option ((#) p) (parentChain n h p))"

definition availableDepth :: "heap \<Rightarrow> int \<Rightarrow> ref list \<Rightarrow> int" where
  "availableDepth h index ps = index + int (sum_list (map (\<lambda>p. length (segments_o (h ! p))) ps))"

text \<open>The URL \<^verbatim>\<open>/team/33/user/bob\<close> and a route on its segment group, at its last segment.\<close>

definition teamHeap :: heap where
  "teamHeap =
     (case newGroup [UrlSegment ''team'' [], UrlSegment ''33'' [], UrlSegment ''user'' [],
                     UrlSegment ''bob'' []] [] [] of
        (g, h) \<Rightarrow> snd (newGroup [] [(PRIMARY_OUTLET, g)] h))"

definition teamTree :: UrlTreeObj where
  "teamTree = \<lparr>root_t = 1, queryParams_t = [], fragment_t = None\<rparr>"

definition bobRoute :: RouteSnapshot where
  "bobRoute = \<lparr>urlSegment = 0, lastPathIndex = 3\<rparr>"

section \<open>Relative navigation with \<^verbatim>\<open>..\<close>\<close>

lemma availableDepth_Nil: "availableDepth h index [] = index"
  by (simp add: availableDepth_def)

lemma availableDepth_Cons:
  "availableDepth h index (p # ps)
   = index + availableDepth h (int (length (segments_o (h ! p)))) ps"
  by (simp add: availableDepth_def)

lemma availableDepth_ge: "index \<le> availableDepth h index ps"
  by (simp add: availableDepth_def)

lemma createPosition_throws:
  "parentChain n h g = Some ps \<Longrightarrow> availableDepth h ci ps < dd \<Longrightarrow>
   createPositionApplyingDoubleDots (Suc n) h g ci dd = Inl invalidDoubleDots"
proof (induction n arbitrary: g ci dd ps)
  case 0
  then show ?case by simp
next
  case (Suc n)
  have gt: "ci < dd" using Suc.prems(2) availableDepth_ge[of ci h ps] by linarith
  show ?case
  proof (cases "parent (h ! g)")
    case None
    with gt show ?thesis by simp
  next
    case (Some p)
    with Suc.prems(1) obtain ps' where ps: "ps = p # ps'" and ch: "parentChain n h p = Some ps'"
      by auto
    from Suc.prems(2) ps
    have "availableDepth h (int (length (segments_o (h ! p)))) ps' < dd - ci"
      by (simp add: availableDepth_Cons)
    from Suc.IH[OF ch this] Some gt show ?thesis by simp
  qed
qed

lemma createPosition_returns:
  "parentChain n h g = Some ps \<Longrightarrow> dd \<le> availableDepth h ci ps \<Longrightarrow>
   \<exists>pos. createPositionApplyingDoubleDots (Suc n) h g ci dd = Inr pos"
proof (induction n arbitrary: g ci dd ps)
  case 0
  then show ?case by simp
next
  case (Suc n)
  show ?case
  proof (cases "ci < dd")
    case False
    then show ?thesis by simp
  next
    case True
    show ?thesis
    proof (cases "parent (h ! g)")
      case None
      with Suc.prems(1) have "ps = []" by simp
      with Suc.prems(2) True show ?thesis by (simp add: availableDepth_Nil)
    next
      case (Some p)
      with Suc.prems(1) obtain ps' where ps: "ps = p # ps'" and ch: "parentChain n h p = Some ps'"
        by auto
      from Suc.prems(2) ps
      have "dd - ci \<le> availableDepth h (int (length (segments_o (h ! p)))) ps'"
        by (simp add: availableDepth_Cons)
      from Suc.IH[OF ch this] Some True show ?thesis by simp
    qed
  qed
qed

lemma createPosition_within:
  "dd \<le> ci \<Longrightarrow>
   createPositionApplyingDoubleDots (Suc n) h g ci dd
   = Inr \<lparr>segmentGroup_p = g, processChildren_p = False, index_p = nat (ci - dd)\<rparr>"
  by simp

text \<open>
  Where a relative navigation starts. For a route with \<^verbatim>\<open>_lastPathIndex\<close> other than
  \<^verbatim>\<open>-1\<close> whose chain of parents is \<open>ps\<close>: when the number of \<^verbatim>\<open>..\<close> is at most the
  start index, the position stays in the route's group, that many segments back; when it
  exceeds the start index plus the number of segments of all groups in \<open>ps\<close>,
  \<^verbatim>\<open>createUrlTree\<close> throws \<^verbatim>\<open>Invalid number of '../'\<close>; otherwise a starting position
  is found.
\<close>

lemma startingPosition_double_dots:
  assumes "cmds \<noteq> []"
    and "computeNavigation cmds = Inr nav"
    and "\<not> isAbsolute nav"
    and "lastPathIndex route \<noteq> - 1"
    and "parentChain (length h) h (urlSegment route) = Some ps"
    and "index = lastPathIndex route
                 + (if commands nav \<noteq> [] \<and> isMatrixParams (hd (commands nav)) then 0 else 1)"
  shows "if int (numberOfDoubleDots nav) \<le> index
          then findStartingPosition nav urlTree route h
               = Inr \<lparr>segmentGroup_p = urlSegment route, processChildren_p = False,
                      index_p = nat (index - int (numberOfDoubleDots nav))\<rparr>
          else if int (numberOfDoubleDots nav) \<le> availableDepth h index ps
          then (\<exists>pos. findStartingPosition nav urlTree route h = Inr pos)
          else createUrlTree route urlTree cmds qps frag h = Inl invalidDoubleDots"
proof -
  have fsp: "findStartingPosition nav urlTree route h
             = createPositionApplyingDoubleDots (Suc (length h)) h (urlSegment route) index
                 (int (numberOfDoubleDots nav))"
    using assms(3,4,6) by (simp add: findStartingPosition_def Let_def)
  have nr: "\<not> toRoot nav" using assms(3) by (simp add: toRoot_def)
  show ?thesis
  proof (cases "int (numberOfDoubleDots nav) \<le> index")
    case True
    then show ?thesis by (simp only: fsp createPosition_within if_True)
  next
    case False
    note notWithin = False
    show ?thesis
    proof (cases "int (numberOfDoubleDots nav) \<le> availableDepth h index ps")
      case True
      from createPosition_returns[OF assms(5) True] notWithin True show ?thesis
        by (simp only: fsp if_True if_False)
    next
      case False
      then have "availableDepth h index ps < int (numberOfDoubleDots nav)" by simp
      from createPosition_throws[OF assms(5) this]
      have "findStartingPosition nav urlTree route h = Inl invalidDoubleDots"
        by (simp only: fsp)
      then have "createUrlTree route urlTree cmds qps frag h = Inl invalidDoubleDots"
        using assms(1,2) nr by (simp add: createUrlTree_def Let_def)
      with notWithin False show ?thesis by (simp only: if_False)
    qed
  qed
qed

text \<open>
  Claim C7 (relative navigation from the route on \<^verbatim>\<open>team/33/user/bob\<close> with
  \<^verbatim>\<open>_lastPathIndex = 3\<close>). With \<^verbatim>\<open>['../22']\<close> the code gives
  \<^verbatim>\<open>/team/33/user/22\<close>, and five \<^verbatim>\<open>..\<close>, one more than the four segments there are,
  make it throw \<^verbatim>\<open>Invalid number of '../'\<close>, both as the claim says. With
  \<^verbatim>\<open>['../../team/44/user/22']\<close> the code gives \<^verbatim>\<open>/team/33/team/44/user/22\<close>: the two
  \<^verbatim>\<open>..\<close> take the start index from 4 to 2, which removes \<^verbatim>\<open>user/bob\<close> and leaves
  \<^verbatim>\<open>team/33\<close> in front of the new segments. The claim says \<^verbatim>\<open>/team/44/user/22\<close>, and so
  does the documentation of \<^verbatim>\<open>Router.createUrlTree\<close> in \<^verbatim>\<open>router.js\<close> (lines
  3623-3632) for the same navigation from \<^verbatim>\<open>user/11\<close>.
\<close>

theorem C7_double_dots_divergence:
  "createdUrl bobRoute teamTree [Str ''../22''] teamHeap = Inr (Some ''/team/33/user/22'')
   \<and> createdUrl bobRoute teamTree [Str ''../../../../../x''] teamHeap = Inl invalidDoubleDots
   \<and> createdUrl bobRoute teamTree [Str ''../../team/44/user/22''] teamHeap
       = Inr (Some ''/team/33/team/44/user/22'')
   \<and> createdUrl bobRoute teamTree [Str ''../../team/44/user/22''] teamHeap
       \<noteq> Inr (Some ''/team/44/user/22'')"
  by code_simp

section \<open>The parser on the store\<close>

text \<open>
  The parser of the first sections returns the tree as a value. Here the same functions
  construct their groups in the store, with \<open>newGroup\<close> wherever the code has
  \<^verbatim>\<open>new UrlSegmentGroup\<close>; what they do with the input is unchanged, and the functions that
  construct no group (\<open>parseSegments\<close>, \<open>parseChildrenLoop\<close>, the query and the fragment) are
  used as they are. A children object under construction can hold \<^verbatim>\<open>undefined\<close>, as before.
\<close>

type_synonym childrenRefs = "(string \<times> ref option) list"

definition newUrlSegmentGroup_h ::
  "UrlSegment list \<Rightarrow> childrenRefs \<Rightarrow> heap \<Rightarrow> error + (ref \<times> heap)" where
  "newUrlSegmentGroup_h segs cs h =
     (if list_ex (\<lambda>kv. snd kv = None) cs then Inl TypeError
      else Inr (newGroup segs (map (\<lambda>kv. (fst kv, the (snd kv))) cs) h))"

text \<open>The segments of \<^verbatim>\<open>parseChildren\<close>: all it does before it looks for parentheses.\<close>

definition parseChildrenPaths :: "string \<Rightarrow> error + (UrlSegment list \<times> string)" where
  "parseChildrenPaths remaining =
     (case (if peekStartsWith remaining ''/'' then capture remaining ''/'' else Inr remaining) of
        Inl e \<Rightarrow> Inl e
      | Inr r1 \<Rightarrow>
          (case (if \<not> peekStartsWith r1 ''(''
                 then (case parseSegments r1 of Inl e \<Rightarrow> Inl e | Inr (seg, r) \<Rightarrow> Inr ([seg], r))
                 else Inr ([], r1)) of
             Inl e \<Rightarrow> Inl e
           | Inr (paths0, r2) \<Rightarrow> parseChildrenLoop paths0 r2))"

text \<open>
  The three places of \<^verbatim>\<open>parseChildren\<close> that deal with groups: the parentheses after
  \<^verbatim>\<open>/\<close>, which become the children of the primary group; the parentheses that follow
  at once, whose groups go to the result; and the primary group itself.
\<close>

definition parensAfterSlash ::
  "(bool \<Rightarrow> string \<Rightarrow> heap \<Rightarrow> error + (childrenRefs \<times> string \<times> heap)) \<Rightarrow> string \<Rightarrow> heap
     \<Rightarrow> error + (childrenRefs \<times> string \<times> heap)" where
  "parensAfterSlash parseParens' r3 h =
     (if peekStartsWith r3 ''/(''
      then (case capture r3 ''/'' of
              Inl e \<Rightarrow> Inl e
            | Inr r \<Rightarrow> parseParens' True r h)
      else Inr ([], r3, h))"

definition parensAtOnce ::
  "(bool \<Rightarrow> string \<Rightarrow> heap \<Rightarrow> error + (childrenRefs \<times> string \<times> heap)) \<Rightarrow> string \<Rightarrow> heap
     \<Rightarrow> error + (childrenRefs \<times> string \<times> heap)" where
  "parensAtOnce parseParens' r4 h1 =
     (if peekStartsWith r4 ''('' then parseParens' False r4 h1 else Inr ([], r4, h1))"

definition storePrimary ::
  "UrlSegment list \<Rightarrow> childrenRefs \<Rightarrow> childrenRefs \<Rightarrow> string \<Rightarrow> heap
     \<Rightarrow> error + (childrenRefs \<times> string \<times> heap)" where
  "storePrimary paths chs res r5 h2 =
     (if length paths > 0 \<or> length chs > 0
      then (case newUrlSegmentGroup_h paths chs h2 of
              Inl e \<Rightarrow> Inl e
            | Inr (g, h3) \<Rightarrow> Inr (objSet PRIMARY_OUTLET (Some g) res, r5, h3))
      else Inr (res, r5, h2))"

definition parseChildrenBody_h ::
  "(bool \<Rightarrow> string \<Rightarrow> heap \<Rightarrow> error + (childrenRefs \<times> string \<times> heap)) \<Rightarrow> string \<Rightarrow> heap
     \<Rightarrow> error + (childrenRefs \<times> string \<times> heap)" where
  "parseChildrenBody_h parseParens' remaining h =
     (if length remaining = 0 then Inr ([], remaining, h)
      else
        (case parseChildrenPaths remaining of
           Inl e \<Rightarrow> Inl e
         | Inr (paths, r3) \<Rightarrow>
        (case parensAfterSlash parseParens' r3 h of
           Inl e \<Rightarrow> Inl e
         | Inr (chs, r4, h1) \<Rightarrow>
        (case parensAtOnce parseParens' r4 h1 of
           Inl e \<Rightarrow> Inl e
         | Inr (res, r5, h2) \<Rightarrow> storePrimary paths chs res r5 h2))))"

text \<open>The outlet name of one iteration of \<^verbatim>\<open>parseParens\<close>, and the input after it.\<close>

definition parseOutletName :: "string \<Rightarrow> bool \<Rightarrow> string \<Rightarrow> error + (string \<times> string)" where
  "parseOutletName url allowPrimary remaining =
     (let p = matchSegments remaining;
          next = (if length p < length remaining then Some (remaining ! length p) else None)
      in if next \<noteq> Some CHR ''/'' \<and> next \<noteq> Some CHR '')'' \<and> next \<noteq> Some CHR '';''
         then Inl (Error (''Cannot parse url '' @ [CHR 0x27] @ url @ [CHR 0x27]))
         else if CHR '':'' \<in> set p
         then (let outletName = takeWhile (\<lambda>c. c \<noteq> CHR '':'') p in
               case capture remaining outletName of
                 Inl e \<Rightarrow> Inl e
               | Inr r \<Rightarrow>
                   (case capture r '':'' of
                      Inl e \<Rightarrow> Inl e
                    | Inr r' \<Rightarrow> Inr (outletName, r')))
         else if allowPrimary then Inr (PRIMARY_OUTLET, remaining)
         else Inr (''undefined'', remaining))"

text \<open>
  The group stored under the outlet name: the primary child of what \<^verbatim>\<open>parseChildren\<close>
  returned when that has one key, a new group around it otherwise.
\<close>

definition outletGroup :: "childrenRefs \<Rightarrow> heap \<Rightarrow> error + (ref option \<times> heap)" where
  "outletGroup chs h1 =
     (if length chs = 1
      then Inr (case map_of chs PRIMARY_OUTLET of Some v \<Rightarrow> v | None \<Rightarrow> None, h1)
      else (case newUrlSegmentGroup_h [] chs h1 of
              Inl e \<Rightarrow> Inl e
            | Inr (g, h2) \<Rightarrow> Inr (Some g, h2)))"

definition skipDoubleSlash :: "string \<Rightarrow> error + string" where
  "skipDoubleSlash r2 = (if peekStartsWith r2 ''//'' then capture r2 ''//'' else Inr r2)"

definition parseParensIter_h ::
  "string \<Rightarrow> bool \<Rightarrow> (string \<Rightarrow> heap \<Rightarrow> error + (childrenRefs \<times> string \<times> heap))
     \<Rightarrow> (childrenRefs \<Rightarrow> string \<Rightarrow> heap \<Rightarrow> error + (childrenRefs \<times> string \<times> heap))
     \<Rightarrow> childrenRefs \<Rightarrow> string \<Rightarrow> heap \<Rightarrow> error + (childrenRefs \<times> string \<times> heap)" where
  "parseParensIter_h url allowPrimary parseChildren' loop' segs remaining h =
     (if \<not> peekStartsWith remaining '')'' \<and> length remaining > 0 then
        (case parseOutletName url allowPrimary remaining of
           Inl e \<Rightarrow> Inl e
         | Inr (outletName, r1) \<Rightarrow>
        (case parseChildren' r1 h of
           Inl e \<Rightarrow> Inl e
         | Inr (chs, r2, h1) \<Rightarrow>
        (case outletGroup chs h1 of
           Inl e \<Rightarrow> Inl e
         | Inr (v, h3) \<Rightarrow>
        (case skipDoubleSlash r2 of
           Inl e \<Rightarrow> Inl e
         | Inr r3 \<Rightarrow> loop' (objSet outletName v segs) r3 h3))))
      else
        (case capture remaining '')'' of
           Inl e \<Rightarrow> Inl e
         | Inr r \<Rightarrow> Inr (segs, r, h)))"

fun parseChildren_h ::
    "nat \<Rightarrow> string \<Rightarrow> string \<Rightarrow> heap \<Rightarrow> error + (childrenRefs \<times> string \<times> heap)"
  and parseParens_h ::
    "nat \<Rightarrow> string \<Rightarrow> bool \<Rightarrow> string \<Rightarrow> heap \<Rightarrow> error + (childrenRefs \<times> string \<times> heap)"
  and parseParensLoop_h ::
    "nat \<Rightarrow> string \<Rightarrow> bool \<Rightarrow> childrenRefs \<Rightarrow> string \<Rightarrow> heap
       \<Rightarrow> error + (childrenRefs \<times> string \<times> heap)"
where
  "parseChildren_h 0 url remaining h = Inl OutOfFuel"
| "parseChildren_h (Suc n) url remaining h =
     parseChildrenBody_h (\<lambda>allowPrimary r h'. parseParens_h n url allowPrimary r h') remaining h"
| "parseParens_h 0 url allowPrimary remaining h = Inl OutOfFuel"
| "parseParens_h (Suc n) url allowPrimary remaining h =
     (case capture remaining ''('' of
        Inl e \<Rightarrow> Inl e
      | Inr r \<Rightarrow> parseParensLoop_h n url allowPrimary [] r h)"
| "parseParensLoop_h 0 url allowPrimary segs remaining h = Inl OutOfFuel"
| "parseParensLoop_h (Suc n) url allowPrimary segs remaining h =
     parseParensIter_h url allowPrimary (\<lambda>r h'. parseChildren_h n url r h')
       (\<lambda>segs' r h'. parseParensLoop_h n url allowPrimary segs' r h') segs remaining h"

definition parseRootSegment_h :: "string \<Rightarrow> string \<Rightarrow> heap \<Rightarrow> error + (ref \<times> string \<times> heap)" where
  "parseRootSegment_h url remaining h =
     (case (if prefix ''/'' remaining then capture remaining ''/'' else Inr remaining) of
        Inl e \<Rightarrow> Inl e
      | Inr r1 \<Rightarrow>
          (if r1 = [] \<or> prefix ''?'' r1 \<or> prefix ''#'' r1
           then (case newGroup [] [] h of (g, h1) \<Rightarrow> Inr (g, r1, h1))
           else
             (case parseChildren_h (parseFuel url) url r1 h of
                Inl e \<Rightarrow> Inl e
              | Inr (cs, r2, h1) \<Rightarrow>
                  (case newUrlSegmentGroup_h [] cs h1 of
                     Inl e \<Rightarrow> Inl e
                   | Inr (g, h2) \<Rightarrow> Inr (g, r2, h2)))))"

definition parse_h :: "string \<Rightarrow> heap \<Rightarrow> error + (UrlTreeObj \<times> heap)" where
  "parse_h url h =
     (case parseRootSegment_h url url h of
        Inl e \<Rightarrow> Inl e
      | Inr (r, rem1, h1) \<Rightarrow>
          (case parseQueryParams rem1 of
             Inl e \<Rightarrow> Inl e
           | Inr (q, rem2) \<Rightarrow>
               (case parseFragment rem2 of
                  Inl e \<Rightarrow> Inl e
                | Inr f \<Rightarrow> Inr (\<lparr>root_t = r, queryParams_t = q, fragment_t = f\<rparr>, h1))))"

section \<open>Parent pointers\<close>

text \<open>
  Two properties of a store. In the first, every group that is in the children of a group
  has that group as its parent; in the second, the parent of a group is \<^verbatim>\<open>null\<close> or a
  group that has it among its children.
\<close>

definition childrenPointBack :: "heap \<Rightarrow> bool" where
  "childrenPointBack h =
     list_all (\<lambda>g. list_all (\<lambda>kv. snd kv < length h \<and> parent (h ! snd kv) = Some g)
                            (children_o (h ! g)))
              [0..<length h]"

definition parentsHold :: "heap \<Rightarrow> bool" where
  "parentsHold h =
     list_all (\<lambda>c. case parent (h ! c) of
                      None \<Rightarrow> True
                    | Some p \<Rightarrow> p < length h \<and> c \<in> snd ` set (children_o (h ! p)))
              [0..<length h]"

definition wellParented :: "heap \<Rightarrow> bool" where
  "wellParented h = (childrenPointBack h \<and> parentsHold h)"







subsection \<open>The constructor\<close>















subsection \<open>Children objects under construction\<close>














subsection \<open>The parser keeps the pointers right\<close>










subsection \<open>The parser on the store and the parser of the first sections\<close>

text \<open>
  On these URLs the tree read back from the store is the tree of \<open>parse\<close>; the second has
  seven groups.
\<close>

lemma parse_h_example:
  "(case parse_h ''/inbox/33(popup:compose)?debug=true#frag'' [] of
      Inl e \<Rightarrow> None
    | Inr (t, h) \<Rightarrow> map_option Inr (toUrlTree h t))
   = Some (parse ''/inbox/33(popup:compose)?debug=true#frag'')"
  by code_simp

lemma parse_h_nested_example:
  "(case parse_h ''/a/(b//x:c/(d//y:e))(z:f)'' [] of
      Inl e \<Rightarrow> None
    | Inr (t, h) \<Rightarrow> map_option Inr (toUrlTree h t))
   = Some (parse ''/a/(b//x:c/(d//y:e))(z:f)'')
   \<and> (case parse_h ''/a/(b//x:c/(d//y:e))(z:f)'' [] of
      Inl e \<Rightarrow> False
    | Inr (t, h) \<Rightarrow> wellParented h \<and> length h = 7)"
  by code_simp

subsection \<open>A rewrite and the tree it started from\<close>





end
